theory Spec2Isabelle
  imports Main "HOL-Library.Word"
begin

section \<open>Overview\<close>

text \<open>
  A server that offers Docker management through Portainer as tools of the Model Context
  Protocol.  Two parts are modelled: the upstream client, one function per endpoint of the
  remote API, and the tool dispatcher of \<open>main.ts\<close>, which lists the tools and routes
  each call to the client.

  The sources hold the dispatcher in several revisions.  The second one takes the
  environment identifier as an argument of every tool, calls the client of
  \<open>src/api/portainer.ts\<close> and returns the result of the client as it is, without any
  \<open>try\<close>.  The first one works on a default environment read at start-up, calls a client
  without \<open>handleRequest\<close>, formats every result as text and recovers from errors in a
  \<open>catch\<close> clause.  A third revision formats with \<open>JSON.stringify\<close> and calls client
  functions that are not among the sources; it is not modelled.  Names of the first
  revision carry the suffix \<open>_r1\<close>.
\<close>

section \<open>JavaScript values\<close>

text \<open>
  The server is TypeScript run by Deno; its casts (\<open>as string\<close>, \<open>as boolean\<close>) are
  unchecked, the first client revision is untyped, and every upstream body is whatever JSON
  the remote API sent.  Values are therefore modelled dynamically.

  A number is a signed integer of 54 bits (a word read by \<open>sint\<close>): every such integer is a value of the runtime
  and prints there as its decimal digits.  Numbers with a fraction and integers beyond
  that range are not values of the model.
\<close>

datatype jsval =
    JUndefined
  | JNull
  | JBool bool
  | JNum "54 word"
  | JStr string
  | JArr "jsval list"
  | JObj "(string \<times> jsval) list"

type_synonym js_object = "(string \<times> jsval) list"

fun nullish :: "jsval \<Rightarrow> bool" where
  "nullish JUndefined = True"
| "nullish JNull = True"
| "nullish _ = False"

text \<open>ToBoolean, as used by \<open>!x\<close>, \<open>x || y\<close> and \<open>if (x)\<close>.\<close>

fun truthy :: "jsval \<Rightarrow> bool" where
  "truthy JUndefined = False"
| "truthy JNull = False"
| "truthy (JBool b) = b"
| "truthy (JNum n) = (n \<noteq> 0)"
| "truthy (JStr s) = (s \<noteq> [])"
| "truthy (JArr _) = True"
| "truthy (JObj _) = True"

text \<open>\<open>a || b\<close>\<close>

definition js_or :: "jsval \<Rightarrow> jsval \<Rightarrow> jsval" where
  "js_or a b = (if truthy a then a else b)"

text \<open>A default parameter value \<open>p: T = d\<close> applies exactly when the argument is \<open>undefined\<close>.\<close>

definition default_param :: "jsval \<Rightarrow> jsval \<Rightarrow> jsval" where
  "default_param v d = (if v = JUndefined then d else v)"

subsection \<open>Thrown values\<close>

text \<open>
  What a \<open>throw\<close> or a rejected promise carries.  An error of axios is what its interface
  \<open>AxiosError\<close> declares, as far as this program reads it: the message, whether the
  request that was sent is attached, and the response, if one arrived, with its status and
  its parsed body.  \<open>axios.isAxiosError\<close> is the type guard of that interface.  Every
  other thrown value is an error object with its own members.
\<close>

record axios_response =
  response_status :: "54 word"
  response_data :: jsval

record axios_error =
  error_message :: string
  error_request :: bool
  error_response :: "axios_response option"

datatype thrown = AxiosError axios_error | Thrown js_object

text \<open>
  The TypeError of the runtime.  The wording of the messages is the engine's (V8 under
  Deno); the theorems of this theory hold for any wording, and only their instances quote
  it.
\<close>

definition TypeError :: "string \<Rightarrow> thrown" where
  "TypeError m = Thrown [(''name'', JStr ''TypeError''), (''message'', JStr m)]"

text \<open>\<open>new Error(m)\<close>\<close>

definition new_Error :: "string \<Rightarrow> thrown" where
  "new_Error m = Thrown [(''name'', JStr ''Error''), (''message'', JStr m)]"

text \<open>Sequencing of computations that may throw.\<close>

definition and_then :: "'e + 'a \<Rightarrow> ('a \<Rightarrow> 'e + 'b) \<Rightarrow> 'e + 'b" where
  "and_then r f = (case r of Inl e \<Rightarrow> Inl e | Inr v \<Rightarrow> f v)"

subsection \<open>Decimal text of a number\<close>

definition digit_char :: "nat \<Rightarrow> char" where
  "digit_char d = ''0123456789'' ! d"

function show_nat :: "nat \<Rightarrow> string" where
  "show_nat n = (if n < 10 then [digit_char n] else show_nat (n div 10) @ [digit_char (n mod 10)])"
  by pat_completeness auto
termination
  by (relation "measure (\<lambda>n. n)") auto

declare show_nat.simps [simp del]

definition show_int :: "int \<Rightarrow> string" where
  "show_int i = (if i < 0 then CHR ''-'' # show_nat (nat (- i)) else show_nat (nat i))"

subsection \<open>Joining and string conversion\<close>

text \<open>\<open>parts.join(sep)\<close> on an array of strings.\<close>

fun join :: "string \<Rightarrow> string list \<Rightarrow> string" where
  "join sep [] = []"
| "join sep [x] = x"
| "join sep (x # y # ys) = x @ sep @ join sep (y # ys)"

text \<open>
  ToString, as a template literal \<open>`${v}`\<close> applies it.  An array prints its elements
  joined by commas, with \<open>null\<close> and \<open>undefined\<close> elements printed as nothing.  A plain
  object prints as \<open>[object Object]\<close> through the \<open>toString\<close> it inherits; when it has a
  member of its own called \<open>toString\<close>, which in parsed JSON is never a function, the
  conversion finds no usable method and throws.  \<open>to_strings\<close> converts the elements
  of an array in order and stops at the first that throws.
\<close>

fun to_string :: "jsval \<Rightarrow> thrown + string"
  and to_strings :: "jsval list \<Rightarrow> thrown + string list" where
  "to_string JUndefined = Inr ''undefined''"
| "to_string JNull = Inr ''null''"
| "to_string (JBool b) = Inr (if b then ''true'' else ''false'')"
| "to_string (JNum n) = Inr (show_int (sint n))"
| "to_string (JStr s) = Inr s"
| "to_string (JArr xs) =
     (case to_strings xs of Inl e \<Rightarrow> Inl e | Inr parts \<Rightarrow> Inr (join '','' parts))"
| "to_string (JObj fs) =
     (if map_of fs ''toString'' = None then Inr ''[object Object]''
      else Inl (TypeError ''Cannot convert object to primitive value''))"
| "to_strings [] = Inr []"
| "to_strings (x # xs) =
     (case (if nullish x then Inr [] else to_string x) of
        Inl e \<Rightarrow> Inl e
      | Inr s \<Rightarrow> (case to_strings xs of Inl e \<Rightarrow> Inl e | Inr ss \<Rightarrow> Inr (s # ss)))"

text \<open>\<open>v.join(sep)\<close> on an array of arbitrary values.\<close>

definition array_join :: "string \<Rightarrow> jsval list \<Rightarrow> thrown + string" where
  "array_join sep xs = and_then (to_strings xs) (\<lambda>parts. Inr (join sep parts))"

text \<open>
  A template literal: its pieces are literal text and substitutions.  A substitution is
  the outcome of its expression; the pieces are taken from left to right, each expression
  first and its conversion to a string next, so that the first piece that throws decides
  what is thrown.
\<close>

datatype piece = Lit string | Sub "thrown + jsval"

fun template :: "piece list \<Rightarrow> thrown + string" where
  "template [] = Inr []"
| "template (Lit s # ps) = and_then (template ps) (\<lambda>rest. Inr (s @ rest))"
| "template (Sub r # ps) =
     and_then r (\<lambda>v. and_then (to_string v) (\<lambda>s. and_then (template ps) (\<lambda>rest. Inr (s @ rest))))"

subsection \<open>Property access\<close>

text \<open>Own-property lookup in an object literal or a parsed JSON object.\<close>

definition field :: "js_object \<Rightarrow> string \<Rightarrow> jsval" where
  "field obj k = (case map_of obj k of None \<Rightarrow> JUndefined | Some v \<Rightarrow> v)"

text \<open>
  \<open>v?.k\<close> for the data properties this program reads (\<open>Id\<close>, \<open>Names\<close>, \<open>message\<close>,
  \<open>length\<close>, ...): \<open>undefined\<close> on \<open>null\<close> and \<open>undefined\<close>; the own member of an
  object; the \<open>length\<close> of an array or a string; \<open>undefined\<close> for any other name on an
  array, a string, a number or a boolean.  Methods (\<open>map\<close>, \<open>join\<close>, \<open>includes\<close>,
  \<open>split\<close>) are not read through this function: each call site below says what happens
  on every kind of value.  No array or string of the runtime has as many as \<open>2 ^ 53\<close>
  elements, so that its length is a number of the model.
\<close>

fun opt_get :: "jsval \<Rightarrow> string \<Rightarrow> jsval" where
  "opt_get (JObj fs) k = field fs k"
| "opt_get (JArr xs) k = (if k = ''length'' then JNum (of_nat (length xs)) else JUndefined)"
| "opt_get (JStr s) k = (if k = ''length'' then JNum (of_nat (length s)) else JUndefined)"
| "opt_get _ k = JUndefined"

text \<open>\<open>v.k\<close>: throws on \<open>null\<close> and \<open>undefined\<close>.\<close>

definition get :: "jsval \<Rightarrow> string \<Rightarrow> thrown + jsval" where
  "get v k =
     (if nullish v
      then Inl (TypeError (''Cannot read properties of ''
                           @ (if v = JNull then ''null'' else ''undefined'')
                           @ '' (reading '' @ [CHR 0x27] @ k @ [CHR 0x27] @ '')''))
      else Inr (opt_get v k))"

text \<open>\<open>v?.[0]\<close>\<close>

fun opt_first :: "jsval \<Rightarrow> jsval" where
  "opt_first (JArr xs) = (case xs of [] \<Rightarrow> JUndefined | x # _ \<Rightarrow> x)"
| "opt_first (JStr s) = (case s of [] \<Rightarrow> JUndefined | c # _ \<Rightarrow> JStr [c])"
| "opt_first (JObj fs) = field fs ''0''"
| "opt_first _ = JUndefined"

section \<open>The HTTP layer\<close>

text \<open>
  One request of the axios instance \<open>portainerClient\<close>.  The instance itself (base URL,
  the \<open>X-API-Key\<close> header, the 30 second timeout) is fixed at start-up and is the same for
  every request, so a request is its method, its path, its query parameters and its body.
\<close>

datatype http_method = GET | POST | DELETE

record http_request =
  req_method :: http_method
  req_url :: string
  req_params :: "(string \<times> jsval) list option"
  req_data :: "jsval option"

text \<open>
  The remote API is a parameter: for each request it either answers with a response whose
  \<open>data\<close> is given (\<open>Inr\<close>), or the promise rejects with a thrown value (\<open>Inl\<close>).
  A computation is the list of requests it issued and its outcome: a thrown value
  (\<open>Inl\<close>) or a result (\<open>Inr\<close>).
\<close>

type_synonym upstream = "http_request \<Rightarrow> thrown + jsval"

type_synonym 'a io = "http_request list \<times> (thrown + 'a)"

definition axios_get :: "upstream \<Rightarrow> string \<Rightarrow> (string \<times> jsval) list option \<Rightarrow> jsval io" where
  "axios_get up u ps =
     (let r = \<lparr>req_method = GET, req_url = u, req_params = ps, req_data = None\<rparr> in ([r], up r))"

definition axios_post :: "upstream \<Rightarrow> string \<Rightarrow> jsval option \<Rightarrow> jsval io" where
  "axios_post up u body =
     (let r = \<lparr>req_method = POST, req_url = u, req_params = None, req_data = body\<rparr> in ([r], up r))"

definition axios_delete :: "upstream \<Rightarrow> string \<Rightarrow> (string \<times> jsval) list option \<Rightarrow> jsval io" where
  "axios_delete up u ps =
     (let r = \<lparr>req_method = DELETE, req_url = u, req_params = ps, req_data = None\<rparr> in ([r], up r))"

text \<open>
  The path of a request is a template literal and is evaluated before the request is
  issued: when a substitution cannot be converted to a string, the function throws and no
  request is sent.
\<close>

definition request_at :: "thrown + string \<Rightarrow> (string \<Rightarrow> jsval io) \<Rightarrow> jsval io" where
  "request_at path issue = (case path of Inl e \<Rightarrow> ([], Inl e) | Inr url \<Rightarrow> issue url)"

section \<open>The upstream client, \<open>src/api/portainer.ts\<close>\<close>

text \<open>\<open>axios.isAxiosError(error)\<close>\<close>

fun isAxiosError :: "thrown \<Rightarrow> bool" where
  "isAxiosError (AxiosError _) = True"
| "isAxiosError (Thrown _) = False"

text \<open>
  \<open>JSON.stringify\<close> belongs to the runtime and is a parameter; it yields a string or
  \<open>undefined\<close> (\<open>None\<close>), and the template literal prints either.
\<close>

definition stringified :: "string option \<Rightarrow> string" where
  "stringified r = (case r of None \<Rightarrow> ''undefined'' | Some s \<Rightarrow> s)"

text \<open>
  \<open>handleRequest\<close>.  The status is a number and the two messages are strings, so their
  conversions in the template literals are the decimal digits and the strings themselves.
\<close>

definition handleRequest :: "(jsval \<Rightarrow> string option) \<Rightarrow> jsval io \<Rightarrow> jsval io" where
  "handleRequest stringify request =
     (case request of (sent, outcome) \<Rightarrow>
        (sent,
         case outcome of
           Inr body \<Rightarrow> Inr body
         | Inl error \<Rightarrow>
             if isAxiosError error then
               (case error of
                  AxiosError axiosError \<Rightarrow>
                    (case error_response axiosError of
                       Some response \<Rightarrow>
                         Inl (new_Error (''Portainer API error: ''
                                         @ show_int (sint (response_status response)) @ '' - ''
                                         @ stringified (stringify (response_data response))))
                     | None \<Rightarrow>
                         if error_request axiosError then
                           Inl (new_Error (''No response from Portainer API: ''
                                           @ error_message axiosError))
                         else
                           Inl (new_Error (''Error setting up request to Portainer API: ''
                                           @ error_message axiosError)))
                | Thrown _ \<Rightarrow> Inl error)
             else Inl error))"

definition fetchDockerContainers ::
  "(jsval \<Rightarrow> string option) \<Rightarrow> upstream \<Rightarrow> jsval \<Rightarrow> jsval io" where
  "fetchDockerContainers stringify up envId =
     request_at
       (template [Lit ''/api/endpoints/'', Sub (Inr envId), Lit ''/docker/containers/json''])
       (\<lambda>url. handleRequest stringify
          (axios_get up url
             (Some [(''all'', JBool True)])))"

definition createDockerContainer ::
  "(jsval \<Rightarrow> string option) \<Rightarrow> upstream \<Rightarrow> jsval \<Rightarrow> jsval \<Rightarrow> jsval \<Rightarrow> jsval \<Rightarrow> jsval \<Rightarrow> jsval io" where
  "createDockerContainer stringify up envId containerName image_ref exposedPorts hostConfig =
     request_at
       (template [Lit ''/api/endpoints/'', Sub (Inr envId), Lit ''/docker/containers/create''])
       (\<lambda>url. handleRequest stringify
          (axios_post up url
             (Some (JObj [(''name'', containerName), (''Image'', image_ref),
                        (''ExposedPorts'', exposedPorts), (''HostConfig'', hostConfig)]))))"

definition startDockerContainer ::
  "(jsval \<Rightarrow> string option) \<Rightarrow> upstream \<Rightarrow> jsval \<Rightarrow> jsval \<Rightarrow> jsval io" where
  "startDockerContainer stringify up envId containerId =
     request_at
       (template [Lit ''/api/endpoints/'', Sub (Inr envId), Lit ''/docker/containers/'', Sub (Inr containerId), Lit ''/start''])
       (\<lambda>url. handleRequest stringify
          (axios_post up url
             None))"

definition deleteDockerContainer ::
  "(jsval \<Rightarrow> string option) \<Rightarrow> upstream \<Rightarrow> jsval \<Rightarrow> jsval \<Rightarrow> jsval \<Rightarrow> jsval io" where
  "deleteDockerContainer stringify up envId containerId force =
     request_at
       (template [Lit ''/api/endpoints/'', Sub (Inr envId), Lit ''/docker/containers/'', Sub (Inr containerId)])
       (\<lambda>url. handleRequest stringify
          (axios_delete up url
             (Some [(''force'', default_param force (JBool False))])))"

definition fetchContainerLogs ::
  "(jsval \<Rightarrow> string option) \<Rightarrow> upstream \<Rightarrow> jsval \<Rightarrow> jsval \<Rightarrow> jsval \<Rightarrow> jsval \<Rightarrow> jsval \<Rightarrow> jsval \<Rightarrow> jsval \<Rightarrow> jsval io" where
  "fetchContainerLogs stringify up envId containerId stdout stderr follow timestamps tail =
     request_at
       (template [Lit ''/api/endpoints/'', Sub (Inr envId), Lit ''/docker/containers/'', Sub (Inr containerId), Lit ''/logs''])
       (\<lambda>url. handleRequest stringify
          (axios_get up url
             (Some [(''stdout'', default_param stdout (JBool True)),
                   (''stderr'', default_param stderr (JBool True)),
                   (''follow'', default_param follow (JBool False)),
                   (''timestamps'', default_param timestamps (JBool False)),
                   (''tail'', default_param tail (JNum 10))])))"

definition updateContainerResourceLimits ::
  "(jsval \<Rightarrow> string option) \<Rightarrow> upstream \<Rightarrow> jsval \<Rightarrow> jsval \<Rightarrow> jsval \<Rightarrow> jsval \<Rightarrow> jsval \<Rightarrow> jsval io" where
  "updateContainerResourceLimits stringify up envId containerId memory memorySwap restartPolicy =
     request_at
       (template [Lit ''/api/endpoints/'', Sub (Inr envId), Lit ''/docker/containers/'', Sub (Inr containerId), Lit ''/update''])
       (\<lambda>url. handleRequest stringify
          (axios_post up url
             (Some (JObj [(''Memory'', memory), (''MemorySwap'', memorySwap),
                        (''RestartPolicy'', restartPolicy)]))))"

definition deleteStoppedContainers ::
  "(jsval \<Rightarrow> string option) \<Rightarrow> upstream \<Rightarrow> jsval \<Rightarrow> jsval io" where
  "deleteStoppedContainers stringify up envId =
     request_at
       (template [Lit ''/api/endpoints/'', Sub (Inr envId), Lit ''/docker/containers/prune''])
       (\<lambda>url. handleRequest stringify
          (axios_delete up url
             (Some [(''all'', JBool True)])))"

definition fetchImages ::
  "(jsval \<Rightarrow> string option) \<Rightarrow> upstream \<Rightarrow> jsval \<Rightarrow> jsval io" where
  "fetchImages stringify up envId =
     request_at
       (template [Lit ''/api/endpoints/'', Sub (Inr envId), Lit ''/docker/images/json''])
       (\<lambda>url. handleRequest stringify
          (axios_get up url
             None))"

definition deleteImageBuildCache ::
  "(jsval \<Rightarrow> string option) \<Rightarrow> upstream \<Rightarrow> jsval \<Rightarrow> jsval io" where
  "deleteImageBuildCache stringify up envId =
     request_at
       (template [Lit ''/api/endpoints/'', Sub (Inr envId), Lit ''/docker/images/prune''])
       (\<lambda>url. handleRequest stringify
          (axios_delete up url
             None))"

definition deleteUnusedImages ::
  "(jsval \<Rightarrow> string option) \<Rightarrow> upstream \<Rightarrow> jsval \<Rightarrow> jsval io" where
  "deleteUnusedImages stringify up envId =
     request_at
       (template [Lit ''/api/endpoints/'', Sub (Inr envId), Lit ''/docker/images/prune''])
       (\<lambda>url. handleRequest stringify
          (axios_delete up url
             None))"

definition fetchNetworks ::
  "(jsval \<Rightarrow> string option) \<Rightarrow> upstream \<Rightarrow> jsval \<Rightarrow> jsval io" where
  "fetchNetworks stringify up envId =
     request_at
       (template [Lit ''/api/endpoints/'', Sub (Inr envId), Lit ''/docker/networks''])
       (\<lambda>url. handleRequest stringify
          (axios_get up url
             None))"

definition inspectNetwork ::
  "(jsval \<Rightarrow> string option) \<Rightarrow> upstream \<Rightarrow> jsval \<Rightarrow> jsval \<Rightarrow> jsval io" where
  "inspectNetwork stringify up envId networkId =
     request_at
       (template [Lit ''/api/endpoints/'', Sub (Inr envId), Lit ''/docker/networks/'', Sub (Inr networkId)])
       (\<lambda>url. handleRequest stringify
          (axios_get up url
             None))"

definition fetchServices ::
  "(jsval \<Rightarrow> string option) \<Rightarrow> upstream \<Rightarrow> jsval \<Rightarrow> jsval io" where
  "fetchServices stringify up envId =
     request_at
       (template [Lit ''/api/endpoints/'', Sub (Inr envId), Lit ''/docker/services''])
       (\<lambda>url. handleRequest stringify
          (axios_get up url
             None))"

definition fetchServiceLog ::
  "(jsval \<Rightarrow> string option) \<Rightarrow> upstream \<Rightarrow> jsval \<Rightarrow> jsval \<Rightarrow> jsval \<Rightarrow> jsval \<Rightarrow> jsval \<Rightarrow> jsval \<Rightarrow> jsval \<Rightarrow> jsval io" where
  "fetchServiceLog stringify up envId serviceId stdout stderr follow timestamps tail =
     request_at
       (template [Lit ''/api/endpoints/'', Sub (Inr envId), Lit ''/docker/services/'', Sub (Inr serviceId), Lit ''/logs''])
       (\<lambda>url. handleRequest stringify
          (axios_get up url
             (Some [(''stdout'', default_param stdout (JBool True)),
                   (''stderr'', default_param stderr (JBool True)),
                   (''follow'', default_param follow (JBool False)),
                   (''timestamps'', default_param timestamps (JBool False)),
                   (''tail'', default_param tail (JNum 10))])))"

section \<open>The upstream client of the first revision\<close>

text \<open>
  The first revision of \<open>main.ts\<close> calls a client whose operations take no environment
  identifier: the identifier is read once from the process environment
  (\<open>PORTAINER_ENV_ID\<close>, a string or \<open>undefined\<close>) and interpolated into every path.  This
  client has no \<open>handleRequest\<close>: a rejected request throws the error axios produced, as it
  is.
\<close>

definition env_value :: "string option \<Rightarrow> jsval" where
  "env_value v = (case v of None \<Rightarrow> JUndefined | Some s \<Rightarrow> JStr s)"

text \<open>The text of that identifier in a path.\<close>

definition env_text :: "string option \<Rightarrow> string" where
  "env_text v = (case v of None \<Rightarrow> ''undefined'' | Some s \<Rightarrow> s)"

text \<open>\<open>await request;\<close> with nothing returned: the result of the function is \<open>undefined\<close>.\<close>

definition returns_nothing :: "jsval io \<Rightarrow> jsval io" where
  "returns_nothing request =
     (case request of (sent, outcome) \<Rightarrow>
        (sent, case outcome of Inl error \<Rightarrow> Inl error | Inr _ \<Rightarrow> Inr JUndefined))"

definition fetchDockerContainers_r1 ::
  "string option \<Rightarrow> upstream \<Rightarrow> jsval io" where
  "fetchDockerContainers_r1 PORTAINER_ENV_ID up =
     request_at
       (template [Lit ''/api/endpoints/'', Sub (Inr (env_value PORTAINER_ENV_ID)), Lit ''/docker/containers/json''])
       (\<lambda>url. axios_get up url
             (Some [(''all'', JBool True)]))"

definition createDockerContainer_r1 ::
  "string option \<Rightarrow> upstream \<Rightarrow> jsval \<Rightarrow> jsval \<Rightarrow> jsval \<Rightarrow> jsval \<Rightarrow> jsval io" where
  "createDockerContainer_r1 PORTAINER_ENV_ID up containerName image_ref exposedPorts hostConfig =
     request_at
       (template [Lit ''/api/endpoints/'', Sub (Inr (env_value PORTAINER_ENV_ID)), Lit ''/docker/containers/create''])
       (\<lambda>url. axios_post up url
             (Some (JObj [(''name'', containerName), (''Image'', image_ref),
                        (''ExposedPorts'', exposedPorts), (''HostConfig'', hostConfig)])))"

definition startDockerContainer_r1 ::
  "string option \<Rightarrow> upstream \<Rightarrow> jsval \<Rightarrow> jsval io" where
  "startDockerContainer_r1 PORTAINER_ENV_ID up containerId =
     request_at
       (template [Lit ''/api/endpoints/'', Sub (Inr (env_value PORTAINER_ENV_ID)), Lit ''/docker/containers/'', Sub (Inr containerId), Lit ''/start''])
       (\<lambda>url. returns_nothing
          (axios_post up url
             None))"

definition deleteDockerContainer_r1 ::
  "string option \<Rightarrow> upstream \<Rightarrow> jsval \<Rightarrow> jsval \<Rightarrow> jsval io" where
  "deleteDockerContainer_r1 PORTAINER_ENV_ID up containerId force =
     request_at
       (template [Lit ''/api/endpoints/'', Sub (Inr (env_value PORTAINER_ENV_ID)), Lit ''/docker/containers/'', Sub (Inr containerId)])
       (\<lambda>url. returns_nothing
          (axios_delete up url
             (Some [(''force'', default_param force (JBool False))])))"

definition fetchContainerLogs_r1 ::
  "string option \<Rightarrow> upstream \<Rightarrow> jsval \<Rightarrow> jsval \<Rightarrow> jsval \<Rightarrow> jsval \<Rightarrow> jsval \<Rightarrow> jsval \<Rightarrow> jsval io" where
  "fetchContainerLogs_r1 PORTAINER_ENV_ID up containerId stdout stderr follow timestamps tail =
     request_at
       (template [Lit ''/api/endpoints/'', Sub (Inr (env_value PORTAINER_ENV_ID)), Lit ''/docker/containers/'', Sub (Inr containerId), Lit ''/logs''])
       (\<lambda>url. axios_get up url
             (Some [(''stdout'', default_param stdout (JBool True)),
                   (''stderr'', default_param stderr (JBool True)),
                   (''follow'', default_param follow (JBool False)),
                   (''timestamps'', default_param timestamps (JBool False)),
                   (''tail'', default_param tail (JNum 10))]))"

definition updateContainerResourceLimits_r1 ::
  "string option \<Rightarrow> upstream \<Rightarrow> jsval \<Rightarrow> jsval \<Rightarrow> jsval \<Rightarrow> jsval \<Rightarrow> jsval io" where
  "updateContainerResourceLimits_r1 PORTAINER_ENV_ID up containerId memory memorySwap restartPolicy =
     request_at
       (template [Lit ''/api/endpoints/'', Sub (Inr (env_value PORTAINER_ENV_ID)), Lit ''/docker/containers/'', Sub (Inr containerId), Lit ''/update''])
       (\<lambda>url. returns_nothing
          (axios_post up url
             (Some (JObj [(''Memory'', memory), (''MemorySwap'', memorySwap),
                        (''RestartPolicy'', restartPolicy)]))))"

definition pruneContainer_r1 ::
  "string option \<Rightarrow> upstream \<Rightarrow> jsval io" where
  "pruneContainer_r1 PORTAINER_ENV_ID up =
     request_at
       (template [Lit ''/api/endpoints/'', Sub (Inr (env_value PORTAINER_ENV_ID)), Lit ''/docker/containers/prune''])
       (\<lambda>url. axios_delete up url
             (Some [(''all'', JBool True)]))"

definition fetchImages_r1 ::
  "string option \<Rightarrow> upstream \<Rightarrow> jsval io" where
  "fetchImages_r1 PORTAINER_ENV_ID up =
     request_at
       (template [Lit ''/api/endpoints/'', Sub (Inr (env_value PORTAINER_ENV_ID)), Lit ''/docker/images/json''])
       (\<lambda>url. axios_get up url
             None)"

definition deleteImageBuildCache_r1 ::
  "string option \<Rightarrow> upstream \<Rightarrow> jsval io" where
  "deleteImageBuildCache_r1 PORTAINER_ENV_ID up =
     request_at
       (template [Lit ''/api/endpoints/'', Sub (Inr (env_value PORTAINER_ENV_ID)), Lit ''/docker/images/prune''])
       (\<lambda>url. axios_delete up url
             None)"

definition deleteUnusedImages_r1 ::
  "string option \<Rightarrow> upstream \<Rightarrow> jsval io" where
  "deleteUnusedImages_r1 PORTAINER_ENV_ID up =
     request_at
       (template [Lit ''/api/endpoints/'', Sub (Inr (env_value PORTAINER_ENV_ID)), Lit ''/docker/images/prune''])
       (\<lambda>url. axios_delete up url
             None)"

definition fetchNetworks_r1 ::
  "string option \<Rightarrow> upstream \<Rightarrow> jsval io" where
  "fetchNetworks_r1 PORTAINER_ENV_ID up =
     request_at
       (template [Lit ''/api/endpoints/'', Sub (Inr (env_value PORTAINER_ENV_ID)), Lit ''/docker/networks''])
       (\<lambda>url. axios_get up url
             None)"

definition fetchServices_r1 ::
  "string option \<Rightarrow> upstream \<Rightarrow> jsval io" where
  "fetchServices_r1 PORTAINER_ENV_ID up =
     request_at
       (template [Lit ''/api/endpoints/'', Sub (Inr (env_value PORTAINER_ENV_ID)), Lit ''/docker/services''])
       (\<lambda>url. axios_get up url
             None)"

definition fetchServiceLog_r1 ::
  "string option \<Rightarrow> upstream \<Rightarrow> jsval \<Rightarrow> jsval \<Rightarrow> jsval \<Rightarrow> jsval \<Rightarrow> jsval \<Rightarrow> jsval \<Rightarrow> jsval io" where
  "fetchServiceLog_r1 PORTAINER_ENV_ID up serviceId stdout stderr follow timestamps tail =
     request_at
       (template [Lit ''/api/endpoints/'', Sub (Inr (env_value PORTAINER_ENV_ID)), Lit ''/docker/services/'', Sub (Inr serviceId), Lit ''/logs''])
       (\<lambda>url. axios_get up url
             (Some [(''stdout'', default_param stdout (JBool True)),
                   (''stderr'', default_param stderr (JBool True)),
                   (''follow'', default_param follow (JBool False)),
                   (''timestamps'', default_param timestamps (JBool False)),
                   (''tail'', default_param tail (JNum 10))]))"

section \<open>The tool catalogue, \<open>main.ts\<close>\<close>

text \<open>
  \<open>main.ts\<close> names its tools through the members of a constant table imported from
  \<open>constants/index.ts\<close>: \<open>TOOL\<close> in the second revision, \<open>Tools\<close> in the first.  The
  members are the datatypes below; the strings they stand for are a parameter of every
  definition that uses them.
\<close>

datatype tool_key =
    FETCH_DOCKER_CONTAINERS
  | CREATE_DOCKER_CONTAINER
  | START_DOCKER_CONTAINER
  | DELETE_DOCKER_CONTAINER
  | FETCH_CONTAINER_LOGS
  | UPDATE_CONTAINER_RESOURCE_LIMITS
  | DELETE_STOPPED_CONTAINERS
  | FETCH_IMAGES
  | DELETE_IMAGE_BUILD_CACHE
  | DELETE_UNUSED_IMAGES
  | FETCH_NETWORKS
  | INSPECT_NETWORK
  | FETCH_SERVICES
  | FETCH_SERVICE_LOG

datatype tools_key_r1 =
    GetDockerContainers
  | CreateDockerContainer
  | StartDockerContainer
  | DeleteDockerContainer
  | GetContainerLogs
  | UpdateContainer
  | DeleteUnwantedContainers
  | GetImages
  | DeleteImageBuilderCache
  | DeleteUnusedImages
  | GetNetworks
  | GetServices
  | GetServiceLogs

text \<open>A property of an input schema is its name, its type and its description.\<close>

record input_schema =
  schema_type :: string
  schema_properties :: "(string \<times> string \<times> string) list"
  schema_required :: "string list"

record tool =
  tool_name :: string
  tool_description :: string
  inputSchema :: input_schema

definition tool_descriptor ::
  "string \<Rightarrow> string \<Rightarrow> (string \<times> string \<times> string) list \<Rightarrow> string list \<Rightarrow> tool" where
  "tool_descriptor n d props req =
     \<lparr>tool_name = n, tool_description = d,
      inputSchema = \<lparr>schema_type = ''object'', schema_properties = props, schema_required = req\<rparr>\<rparr>"

text \<open>The \<open>ListToolsRequestSchema\<close> handler of the second revision.\<close>

definition ListTools_handler :: "(tool_key \<Rightarrow> string) \<Rightarrow> tool list io" where
  "ListTools_handler TOOL =
    ([], Inr
     [tool_descriptor (TOOL FETCH_DOCKER_CONTAINERS) ''Fetch all Docker containers from a specified environment''
         [(''envId'', ''string'', ''The ID of the environment to fetch containers from'')]
         [''envId''],
      tool_descriptor (TOOL CREATE_DOCKER_CONTAINER) ''Create a new Docker container in a specified environment''
         [(''envId'', ''string'', ''The ID of the environment to create the container in''),
          (''containerName'', ''string'', ''The name of the container to create''),
          (''image'', ''string'', ''The Docker image to use for the container''),
          (''exposedPorts'', ''object'', ''Ports to expose from the container''),
          (''hostConfig'', ''object'', ''Host configuration for the container'')]
         [''envId'', ''containerName'', ''image''],
      tool_descriptor (TOOL START_DOCKER_CONTAINER) ''Start a Docker container in a specified environment''
         [(''envId'', ''string'', ''The ID of the environment containing the container''),
          (''containerId'', ''string'', ''The ID of the container to start'')]
         [''envId'', ''containerId''],
      tool_descriptor (TOOL DELETE_DOCKER_CONTAINER) ''Delete a Docker container from a specified environment''
         [(''envId'', ''string'', ''The ID of the environment containing the container''),
          (''containerId'', ''string'', ''The ID of the container to delete''),
          (''force'', ''boolean'', ''Whether to force the deletion of the container'')]
         [''envId'', ''containerId''],
      tool_descriptor (TOOL FETCH_CONTAINER_LOGS) ''Fetch logs from a Docker container''
         [(''envId'', ''string'', ''The ID of the environment containing the container''),
          (''containerId'', ''string'', ''The ID of the container to fetch logs from''),
          (''stdout'', ''boolean'', ''Whether to include stdout logs''),
          (''stderr'', ''boolean'', ''Whether to include stderr logs''),
          (''follow'', ''boolean'', ''Whether to follow the logs''),
          (''timestamps'', ''boolean'', ''Whether to include timestamps''),
          (''tail'', ''number'', ''Number of lines to return from the end of the logs'')]
         [''envId'', ''containerId''],
      tool_descriptor (TOOL UPDATE_CONTAINER_RESOURCE_LIMITS) ''Update resource limits for a Docker container''
         [(''envId'', ''string'', ''The ID of the environment containing the container''),
          (''containerId'', ''string'', ''The ID of the container to update''),
          (''memory'', ''number'', ''Memory limit in bytes''),
          (''memorySwap'', ''number'', ''Memory swap limit in bytes''),
          (''restartPolicy'', ''object'', ''Restart policy for the container'')]
         [''envId'', ''containerId''],
      tool_descriptor (TOOL DELETE_STOPPED_CONTAINERS) ''Delete all stopped containers from a specified environment''
         [(''envId'', ''string'', ''The ID of the environment to clean up'')]
         [''envId''],
      tool_descriptor (TOOL FETCH_IMAGES) ''Fetch all Docker images from a specified environment''
         [(''envId'', ''string'', ''The ID of the environment to fetch images from'')]
         [''envId''],
      tool_descriptor (TOOL DELETE_IMAGE_BUILD_CACHE) ''Delete the build cache for Docker images''
         [(''envId'', ''string'', ''The ID of the environment to clean up'')]
         [''envId''],
      tool_descriptor (TOOL DELETE_UNUSED_IMAGES) ''Delete unused Docker images''
         [(''envId'', ''string'', ''The ID of the environment to clean up'')]
         [''envId''],
      tool_descriptor (TOOL FETCH_NETWORKS) ''Fetch all Docker networks from a specified environment''
         [(''envId'', ''string'', ''The ID of the environment to fetch networks from'')]
         [''envId''],
      tool_descriptor (TOOL INSPECT_NETWORK) ''Get detailed information about a specific Docker network''
         [(''envId'', ''string'', ''The ID of the environment containing the network''),
          (''networkId'', ''string'', ''The ID of the network to inspect'')]
         [''envId'', ''networkId''],
      tool_descriptor (TOOL FETCH_SERVICES) ''Fetch all Docker services from a specified environment''
         [(''envId'', ''string'', ''The ID of the environment to fetch services from'')]
         [''envId''],
      tool_descriptor (TOOL FETCH_SERVICE_LOG) ''Fetch logs from a Docker service''
         [(''envId'', ''string'', ''The ID of the environment containing the service''),
          (''serviceId'', ''string'', ''The ID of the service to fetch logs from''),
          (''stdout'', ''boolean'', ''Whether to include stdout logs''),
          (''stderr'', ''boolean'', ''Whether to include stderr logs''),
          (''follow'', ''boolean'', ''Whether to follow the logs''),
          (''timestamps'', ''boolean'', ''Whether to include timestamps''),
          (''tail'', ''number'', ''Number of lines to return from the end of the logs'')]
         [''envId'', ''serviceId'']])"

text \<open>The \<open>ListToolsRequestSchema\<close> handler of the first revision.\<close>

definition ListTools_handler_r1 :: "(tools_key_r1 \<Rightarrow> string) \<Rightarrow> tool list io" where
  "ListTools_handler_r1 Tools =
    ([], Inr
     [tool_descriptor (Tools GetDockerContainers) ''Fetch all Docker containers''
         []
         [],
      tool_descriptor (Tools CreateDockerContainer) ''Create a new Docker container''
         [(''containerName'', ''string'', ''The name of the container to create''),
          (''image'', ''string'', ''The Docker image to use for the container''),
          (''exposedPorts'', ''object'', ''Ports to expose from the container''),
          (''hostConfig'', ''object'', ''Host configuration for the container'')]
         [''containerName'', ''image''],
      tool_descriptor (Tools StartDockerContainer) ''Start a Docker container''
         [(''containerId'', ''string'', ''The ID of the container to start'')]
         [''containerId''],
      tool_descriptor (Tools DeleteDockerContainer) ''Delete a Docker container''
         [(''containerId'', ''string'', ''The ID of the container to delete''),
          (''force'', ''boolean'', ''Whether to force the deletion of the container'')]
         [''containerId''],
      tool_descriptor (Tools GetContainerLogs) ''Fetch logs from a Docker container''
         [(''containerId'', ''string'', ''The ID of the container to fetch logs from''),
          (''stdout'', ''boolean'', ''Whether to include stdout logs''),
          (''stderr'', ''boolean'', ''Whether to include stderr logs''),
          (''follow'', ''boolean'', ''Whether to follow the logs''),
          (''timestamps'', ''boolean'', ''Whether to include timestamps''),
          (''tail'', ''number'', ''Number of lines to return from the end of the logs'')]
         [''containerId''],
      tool_descriptor (Tools UpdateContainer) ''Update resource limits for a Docker container''
         [(''containerId'', ''string'', ''The ID of the container to update''),
          (''memory'', ''number'', ''Memory limit in bytes''),
          (''memorySwap'', ''number'', ''Memory swap limit in bytes''),
          (''restartPolicy'', ''object'', ''Restart policy for the container'')]
         [''containerId''],
      tool_descriptor (Tools DeleteUnwantedContainers) ''Delete all stopped containers''
         []
         [],
      tool_descriptor (Tools GetImages) ''Fetch all Docker images''
         []
         [],
      tool_descriptor (Tools DeleteImageBuilderCache) ''Delete the build cache for Docker images''
         []
         [],
      tool_descriptor (Tools DeleteUnusedImages) ''Delete unused Docker images''
         []
         [],
      tool_descriptor (Tools GetNetworks) ''Fetch all Docker networks''
         []
         [],
      tool_descriptor (Tools GetServices) ''Fetch all Docker services''
         []
         [],
      tool_descriptor (Tools GetServiceLogs) ''Fetch logs from a Docker service''
         [(''serviceId'', ''string'', ''The ID of the service to fetch logs from''),
          (''stdout'', ''boolean'', ''Whether to include stdout logs''),
          (''stderr'', ''boolean'', ''Whether to include stderr logs''),
          (''follow'', ''boolean'', ''Whether to follow the logs''),
          (''timestamps'', ''boolean'', ''Whether to include timestamps''),
          (''tail'', ''number'', ''Number of lines to return from the end of the logs'')]
         [''serviceId'']])"

text \<open>The \<open>tools\<close> array of a reply of such a handler.\<close>

definition tools_of :: "tool list io \<Rightarrow> tool list" where
  "tools_of r = (case snd r of Inl _ \<Rightarrow> [] | Inr ts \<Rightarrow> ts)"

section \<open>Tool calls, \<open>main.ts\<close>\<close>

text \<open>
  A reply is either \<open>{content: [{type: "text", text: t}]}\<close> (first revision) or
  \<open>{result: r}\<close> (second revision).  The text is a value, not a string, because one case
  of the first revision puts a property read there.
\<close>

record content_item =
  item_type :: string
  item_text :: jsval

datatype reply = Content "content_item list" | Result jsval

definition text_reply :: "jsval \<Rightarrow> reply" where
  "text_reply t = Content [\<lparr>item_type = ''text'', item_text = t\<rparr>]"

text \<open>\<open>const r = await op(...); return {result: r};\<close>\<close>

definition as_result :: "jsval io \<Rightarrow> reply io" where
  "as_result request =
     (case request of (sent, outcome) \<Rightarrow> (sent, and_then outcome (\<lambda>r. Inr (Result r))))"

subsection \<open>Second revision: environment identifier per call, no recovery\<close>

definition CallTool_handler ::
  "(tool_key \<Rightarrow> string) \<Rightarrow> (jsval \<Rightarrow> string option) \<Rightarrow> upstream \<Rightarrow> string \<Rightarrow> js_object option \<Rightarrow> reply io" where
  "CallTool_handler TOOL stringify up name args =
     (case args of
        None \<Rightarrow> ([], Inl (new_Error (''No arguments provided for tool: '' @ name)))
      | Some typedArgs \<Rightarrow>
          if name = TOOL FETCH_DOCKER_CONTAINERS then
            as_result (fetchDockerContainers stringify up (field typedArgs ''envId''))
          else if name = TOOL CREATE_DOCKER_CONTAINER then
            as_result (createDockerContainer stringify up
              (field typedArgs ''envId'')
              (field typedArgs ''containerName'')
              (field typedArgs ''image'')
              (js_or (field typedArgs ''exposedPorts'') (JObj []))
              (js_or (field typedArgs ''hostConfig'') (JObj [])))
          else if name = TOOL START_DOCKER_CONTAINER then
            as_result (startDockerContainer stringify up
              (field typedArgs ''envId'')
              (field typedArgs ''containerId''))
          else if name = TOOL DELETE_DOCKER_CONTAINER then
            as_result (deleteDockerContainer stringify up
              (field typedArgs ''envId'')
              (field typedArgs ''containerId'')
              (field typedArgs ''force''))
          else if name = TOOL FETCH_CONTAINER_LOGS then
            as_result (fetchContainerLogs stringify up
              (field typedArgs ''envId'')
              (field typedArgs ''containerId'')
              (field typedArgs ''stdout'')
              (field typedArgs ''stderr'')
              (field typedArgs ''follow'')
              (field typedArgs ''timestamps'')
              (field typedArgs ''tail''))
          else if name = TOOL UPDATE_CONTAINER_RESOURCE_LIMITS then
            as_result (updateContainerResourceLimits stringify up
              (field typedArgs ''envId'')
              (field typedArgs ''containerId'')
              (field typedArgs ''memory'')
              (field typedArgs ''memorySwap'')
              (field typedArgs ''restartPolicy''))
          else if name = TOOL DELETE_STOPPED_CONTAINERS then
            as_result (deleteStoppedContainers stringify up (field typedArgs ''envId''))
          else if name = TOOL FETCH_IMAGES then
            as_result (fetchImages stringify up (field typedArgs ''envId''))
          else if name = TOOL DELETE_IMAGE_BUILD_CACHE then
            as_result (deleteImageBuildCache stringify up (field typedArgs ''envId''))
          else if name = TOOL DELETE_UNUSED_IMAGES then
            as_result (deleteUnusedImages stringify up (field typedArgs ''envId''))
          else if name = TOOL FETCH_NETWORKS then
            as_result (fetchNetworks stringify up (field typedArgs ''envId''))
          else if name = TOOL INSPECT_NETWORK then
            as_result (inspectNetwork stringify up
              (field typedArgs ''envId'')
              (field typedArgs ''networkId''))
          else if name = TOOL FETCH_SERVICES then
            as_result (fetchServices stringify up (field typedArgs ''envId''))
          else if name = TOOL FETCH_SERVICE_LOG then
            as_result (fetchServiceLog stringify up
              (field typedArgs ''envId'')
              (field typedArgs ''serviceId'')
              (field typedArgs ''stdout'')
              (field typedArgs ''stderr'')
              (field typedArgs ''follow'')
              (field typedArgs ''timestamps'')
              (field typedArgs ''tail''))
          else ([], Inl (new_Error (''Unknown tool: '' @ name))))"

subsection \<open>First revision: default environment, formatted text, recovery at the top\<close>

definition newline :: string where
  "newline = [CHR 0x0A]"

text \<open>A template literal used as a value.\<close>

definition text_of_template :: "piece list \<Rightarrow> thrown + jsval" where
  "text_of_template ps = and_then (template ps) (\<lambda>t. Inr (JStr t))"

text \<open>Applying a callback that may throw to the elements in order; the first throw ends it.\<close>

fun map_throw :: "('a \<Rightarrow> 'e + 'b) \<Rightarrow> 'a list \<Rightarrow> 'e + 'b list" where
  "map_throw f [] = Inr []"
| "map_throw f (x # xs) =
     and_then (f x) (\<lambda>y. and_then (map_throw f xs) (\<lambda>ys. Inr (y # ys)))"

text \<open>
  \<open>v.map(f)\<close> for a callback that yields a string: only an array has \<open>map\<close>.  \<open>callee\<close>
  is the source text of the callee, which the engine quotes in its message.
\<close>

definition js_map :: "string \<Rightarrow> jsval \<Rightarrow> (jsval \<Rightarrow> thrown + string) \<Rightarrow> thrown + string list" where
  "js_map callee v f =
     (case v of
        JArr xs \<Rightarrow> map_throw f xs
      | _ \<Rightarrow>
          if nullish v then and_then (get v ''map'') (\<lambda>_. Inr [])
          else Inl (TypeError (callee @ '' is not a function'')))"

text \<open>
  ToNumber, for the one comparison \<open>length > 0\<close> below.  Reading a number out of a string
  is the runtime's and is a parameter (\<open>None\<close> stands for \<open>NaN\<close>).  An array or an
  object is converted to a string first, which may throw.
\<close>

definition to_number :: "(string \<Rightarrow> int option) \<Rightarrow> jsval \<Rightarrow> thrown + int option" where
  "to_number StringToNumber v =
     (case v of
        JUndefined \<Rightarrow> Inr None
      | JNull \<Rightarrow> Inr (Some 0)
      | JBool b \<Rightarrow> Inr (Some (if b then 1 else 0))
      | JNum n \<Rightarrow> Inr (Some (sint n))
      | JStr s \<Rightarrow> Inr (StringToNumber s)
      | JArr xs \<Rightarrow> and_then (to_string v) (\<lambda>s. Inr (StringToNumber s))
      | JObj _ \<Rightarrow> and_then (to_string v) (\<lambda>s. Inr (StringToNumber s)))"

definition js_gt :: "(string \<Rightarrow> int option) \<Rightarrow> jsval \<Rightarrow> int \<Rightarrow> thrown + bool" where
  "js_gt StringToNumber v n =
     and_then (to_number StringToNumber v)
       (\<lambda>x. Inr (case x of None \<Rightarrow> False | Some y \<Rightarrow> n < y))"

text \<open>
  \<open>p => `${p.PublicPort}:${p.PrivatePort}/${p.Type}`\<close>
\<close>

definition container_port_text :: "jsval \<Rightarrow> thrown + string" where
  "container_port_text p =
     template [Sub (get p ''PublicPort''), Lit '':'', Sub (get p ''PrivatePort''), Lit ''/'',
               Sub (get p ''Type'')]"

text \<open>
  \<open>container.Ports?.map(...).join(", ") || "none"\<close>: the optional chain yields
  \<open>undefined\<close> at once when \<open>Ports\<close> is \<open>null\<close> or \<open>undefined\<close>.
\<close>

definition container_ports_text :: "jsval \<Rightarrow> thrown + jsval" where
  "container_ports_text ports =
     (if nullish ports then Inr (js_or JUndefined (JStr ''none''))
      else and_then (js_map ''container.Ports?.map'' ports container_port_text) (\<lambda>parts.
             Inr (js_or (JStr (join '', '' parts)) (JStr ''none''))))"

text \<open>The callback of the \<open>GetDockerContainers\<close> case: one line for one container.\<close>

definition container_text :: "jsval \<Rightarrow> thrown + string" where
  "container_text container =
     template
       [Lit ''ContainerId: '', Sub (get container ''Id''),
        Lit '', Name: '',
        Sub (and_then (get container ''Names'')
               (\<lambda>names. Inr (js_or (opt_first names) (JStr ''unknown'')))),
        Lit '', Ports: '', Sub (and_then (get container ''Ports'') container_ports_text),
        Lit '', State: '', Sub (get container ''State''),
        Lit '', Status: '', Sub (get container ''Status'')]"

definition format_containers :: "jsval \<Rightarrow> thrown + jsval" where
  "format_containers result =
     and_then (js_map ''result.map'' result container_text) (\<lambda>lines. Inr (JStr (join newline lines)))"

text \<open>
  The text of the \<open>CreateDockerContainer\<close> case:
  \<open>`Container created successfully with Id: ${result.Id}${result.Warnings.length > 0 ?
  `\nWarnings: ${result.Warnings.join(", ")}` : ""}`\<close>.  \<open>warnings_text\<close> is the second
  substitution.
\<close>

definition warnings_text :: "(string \<Rightarrow> int option) \<Rightarrow> jsval \<Rightarrow> thrown + jsval" where
  "warnings_text StringToNumber result =
     and_then (get result ''Warnings'') (\<lambda>warnings.
     and_then (get warnings ''length'') (\<lambda>len.
     and_then (js_gt StringToNumber len 0) (\<lambda>positive.
       if positive then
         (case warnings of
            JArr ws \<Rightarrow>
              and_then (array_join '', '' ws) (\<lambda>joined.
                Inr (JStr (newline @ ''Warnings: '' @ joined)))
          | _ \<Rightarrow> Inl (TypeError ''result.Warnings.join is not a function''))
       else Inr (JStr []))))"

definition format_created :: "(string \<Rightarrow> int option) \<Rightarrow> jsval \<Rightarrow> thrown + jsval" where
  "format_created StringToNumber result =
     text_of_template
       [Lit ''Container created successfully with Id: '', Sub (get result ''Id''),
        Sub (warnings_text StringToNumber result)]"

text \<open>
  \<open>name.includes("/") ? name.split("/")[0] : "docker.io"\<close>: a string has both methods, an
  array has \<open>includes\<close> only, nothing else has either.
\<close>

definition registry_of :: "jsval \<Rightarrow> thrown + jsval" where
  "registry_of name =
     (case name of
        JStr s \<Rightarrow>
          Inr (JStr (if CHR ''/'' \<in> set s then takeWhile (\<lambda>c. c \<noteq> CHR ''/'') s else ''docker.io''))
      | JArr xs \<Rightarrow>
          if JStr ''/'' \<in> set xs then Inl (TypeError ''name.split is not a function'')
          else Inr (JStr ''docker.io'')
      | _ \<Rightarrow> Inl (TypeError ''name.includes is not a function''))"

definition image_text :: "jsval \<Rightarrow> thrown + string" where
  "image_text image_item =
     and_then (get image_item ''RepoTags'') (\<lambda>tags.
       (let name = js_or (opt_first tags) (JStr ''untagged'') in
        and_then (registry_of name) (\<lambda>registry.
          template [Lit ''Name: '', Sub (Inr name), Lit '', Registry: '', Sub (Inr registry),
                    Lit '', Id: '', Sub (get image_item ''Id'')])))"

definition format_images :: "jsval \<Rightarrow> thrown + jsval" where
  "format_images images =
     and_then (js_map ''images.map'' images image_text) (\<lambda>lines. Inr (JStr (join newline lines)))"

definition unused_image_text :: "jsval \<Rightarrow> thrown + string" where
  "unused_image_text image_item =
     template [Lit ''Name: '', Sub (get image_item ''name''),
               Lit '', Description: '', Sub (get image_item ''description'')]"

definition format_unused_images :: "jsval \<Rightarrow> thrown + jsval" where
  "format_unused_images result =
     and_then (js_map ''result.map'' result unused_image_text) (\<lambda>lines. Inr (JStr (join newline lines)))"

definition network_text :: "jsval \<Rightarrow> thrown + string" where
  "network_text network =
     template [Lit ''Name: '', Sub (get network ''Name''),
               Lit '', Id: '', Sub (get network ''Id''),
               Lit '', Created: '', Sub (get network ''Created''),
               Lit '', Scope: '', Sub (get network ''Scope''),
               Lit '', Driver: '', Sub (get network ''Driver'')]"

definition format_networks :: "jsval \<Rightarrow> thrown + jsval" where
  "format_networks networks =
     and_then (js_map ''networks.map'' networks network_text) (\<lambda>lines. Inr (JStr (join newline lines)))"

definition service_port_text :: "jsval \<Rightarrow> thrown + string" where
  "service_port_text port =
     template [Sub (get port ''PublishedPort''), Lit ''->'', Sub (get port ''TargetPort''),
               Lit ''/'', Sub (get port ''Protocol'')]"

definition service_text :: "jsval \<Rightarrow> thrown + string" where
  "service_text service =
     (let name = js_or (opt_get (opt_get service ''Spec'') ''Name'') (JStr ''N/A'');
          image_ref =
            js_or (opt_get (opt_get (opt_get (opt_get service ''Spec'') ''TaskTemplate'')
                              ''ContainerSpec'') ''Image'')
                  (JStr ''N/A'');
          port_list = opt_get (opt_get service ''Endpoint'') ''Ports''
      in and_then
           (if nullish port_list then Inr (js_or JUndefined (JStr ''None''))
            else and_then (js_map ''service?.Endpoint?.Ports?.map'' port_list service_port_text)
                   (\<lambda>parts. Inr (js_or (JStr (join '', '' parts)) (JStr ''None''))))
           (\<lambda>ports.
              template [Lit ''Name: '', Sub (Inr name), Lit '', Image: '', Sub (Inr image_ref),
                        Lit '', Ports: '', Sub (Inr ports)]))"

definition format_services :: "jsval \<Rightarrow> thrown + jsval" where
  "format_services services =
     and_then (js_map ''services.map'' services service_text) (\<lambda>lines. Inr (JStr (join newline lines)))"

text \<open>\<open>const r = await op(...); return {content: [{type: "text", text: f(r)}]};\<close>\<close>

definition then_reply :: "jsval io \<Rightarrow> (jsval \<Rightarrow> thrown + jsval) \<Rightarrow> reply io" where
  "then_reply request f =
     (case request of (sent, outcome) \<Rightarrow>
        (sent, and_then outcome (\<lambda>result. and_then (f result) (\<lambda>t. Inr (text_reply t)))))"

text \<open>The body of the \<open>try\<close> block.\<close>

definition dispatch_r1 ::
  "(tools_key_r1 \<Rightarrow> string) \<Rightarrow> (string \<Rightarrow> int option) \<Rightarrow> string option \<Rightarrow> upstream \<Rightarrow> string
     \<Rightarrow> js_object option \<Rightarrow> reply io" where
  "dispatch_r1 Tools StringToNumber PORTAINER_ENV_ID up name args =
     (case args of
        None \<Rightarrow> ([], Inl (new_Error (''No arguments provided for tool: '' @ name)))
      | Some typedArgs \<Rightarrow>
          if name = Tools GetDockerContainers then
            then_reply (fetchDockerContainers_r1 PORTAINER_ENV_ID up) format_containers
          else if name = Tools CreateDockerContainer then
            then_reply
              (createDockerContainer_r1 PORTAINER_ENV_ID up
                 (field typedArgs ''containerName'')
                 (field typedArgs ''image'')
                 (js_or (field typedArgs ''exposedPorts'') (JObj []))
                 (js_or (field typedArgs ''hostConfig'') (JObj [])))
              (format_created StringToNumber)
          else if name = Tools StartDockerContainer then
            then_reply
              (startDockerContainer_r1 PORTAINER_ENV_ID up (field typedArgs ''containerId''))
              (\<lambda>_. text_of_template
                     [Lit ''Operation successful - Container Id: '',
                      Sub (Inr (field typedArgs ''containerId'')),
                      Lit '', Env Id: '', Sub (Inr (field typedArgs ''envId''))])
          else if name = Tools DeleteDockerContainer then
            then_reply
              (deleteDockerContainer_r1 PORTAINER_ENV_ID up
                 (field typedArgs ''containerId'')
                 (field typedArgs ''force''))
              (\<lambda>_. text_of_template
                     [Lit ''Operation successful - Container Id: '',
                      Sub (Inr (field typedArgs ''containerId'')),
                      Lit '', Env Id: '', Sub (Inr (field typedArgs ''envId''))])
          else if name = Tools GetContainerLogs then
            then_reply
              (fetchContainerLogs_r1 PORTAINER_ENV_ID up
                 (field typedArgs ''containerId'')
                 (field typedArgs ''stdout'')
                 (field typedArgs ''stderr'')
                 (field typedArgs ''follow'')
                 (field typedArgs ''timestamps'')
                 (field typedArgs ''tail''))
              (\<lambda>result. get result ''message'')
          else if name = Tools UpdateContainer then
            then_reply
              (updateContainerResourceLimits_r1 PORTAINER_ENV_ID up
                 (field typedArgs ''containerId'')
                 (field typedArgs ''memory'')
                 (field typedArgs ''memorySwap'')
                 (field typedArgs ''restartPolicy''))
              (\<lambda>_. text_of_template
                     [Lit ''Operation successful - Container Id: '',
                      Sub (Inr (field typedArgs ''containerId'')),
                      Lit '', Env Id: '', Sub (Inr (field typedArgs ''envId''))])
          else if name = Tools DeleteUnwantedContainers then
            then_reply (pruneContainer_r1 PORTAINER_ENV_ID up)
              (\<lambda>_. text_of_template
                     [Lit ''Operation successful - Env Id: '', Sub (Inr (field typedArgs ''envId''))])
          else if name = Tools GetImages then
            then_reply (fetchImages_r1 PORTAINER_ENV_ID up) format_images
          else if name = Tools DeleteImageBuilderCache then
            then_reply (deleteImageBuildCache_r1 PORTAINER_ENV_ID up)
              (\<lambda>_. text_of_template
                     [Lit ''Operation successful - Env Id: '', Sub (Inr (field typedArgs ''envId''))])
          else if name = Tools DeleteUnusedImages then
            then_reply (deleteUnusedImages_r1 PORTAINER_ENV_ID up) format_unused_images
          else if name = Tools GetNetworks then
            then_reply (fetchNetworks_r1 PORTAINER_ENV_ID up) format_networks
          else if name = Tools GetServices then
            then_reply (fetchServices_r1 PORTAINER_ENV_ID up) format_services
          else if name = Tools GetServiceLogs then
            then_reply
              (fetchServiceLog_r1 PORTAINER_ENV_ID up
                 (field typedArgs ''serviceId'')
                 (field typedArgs ''stdout'')
                 (field typedArgs ''stderr'')
                 (field typedArgs ''follow'')
                 (field typedArgs ''timestamps'')
                 (field typedArgs ''tail''))
              (\<lambda>result. get result ''message'')
          else ([], Inl (new_Error (''Unknown tool: '' @ name))))"

text \<open>
  The \<open>catch\<close> clause reads
  \<open>error.response?.data?.message || error.message || "Cannot process the request"\<close>.
  \<open>response_message\<close> and \<open>message_of\<close> are the two reads on a thrown value.
\<close>

fun response_message :: "thrown \<Rightarrow> jsval" where
  "response_message (AxiosError e) =
     (case error_response e of None \<Rightarrow> JUndefined | Some r \<Rightarrow> opt_get (response_data r) ''message'')"
| "response_message (Thrown obj) = opt_get (opt_get (field obj ''response'') ''data'') ''message''"

fun message_of :: "thrown \<Rightarrow> jsval" where
  "message_of (AxiosError e) = JStr (error_message e)"
| "message_of (Thrown obj) = field obj ''message''"

definition errorMessage :: "thrown \<Rightarrow> jsval" where
  "errorMessage error =
     js_or (js_or (response_message error) (message_of error)) (JStr ''Cannot process the request'')"

text \<open>
  The \<open>CallToolRequestSchema\<close> handler of the first revision: \<open>try\<close> and \<open>catch\<close>.
  The reply of the \<open>catch\<close> clause is the template literal \<open>`Failed: ${errorMessage}`\<close>;
  when the message cannot be converted to a string, that literal throws and the error
  leaves the handler.
\<close>

definition CallTool_handler_r1 ::
  "(tools_key_r1 \<Rightarrow> string) \<Rightarrow> (string \<Rightarrow> int option) \<Rightarrow> string option \<Rightarrow> upstream \<Rightarrow> string
     \<Rightarrow> js_object option \<Rightarrow> reply io" where
  "CallTool_handler_r1 Tools StringToNumber PORTAINER_ENV_ID up name args =
     (case dispatch_r1 Tools StringToNumber PORTAINER_ENV_ID up name args of (sent, outcome) \<Rightarrow>
        (sent,
         case outcome of
           Inr r \<Rightarrow> Inr r
         | Inl error \<Rightarrow>
             and_then (text_of_template [Lit ''Failed: '', Sub (Inr (errorMessage error))])
               (\<lambda>t. Inr (text_reply t))))"

section \<open>Typed upstream data, \<open>types/index.ts\<close>\<close>

text \<open>
  The interface \<open>DockerContainer\<close>.  \<open>NetworkSettings\<close> and the entries of
  \<open>Mounts\<close> are kept as JSON.
\<close>

record port_binding =
  port_IP :: "string option"
  port_PrivatePort :: "54 word"
  port_PublicPort :: "54 word option"
  port_Type :: string

record DockerContainer =
  c_Id :: string
  c_Names :: "string list"
  c_Image :: string
  c_ImageID :: string
  c_Command :: string
  c_Created :: "54 word"
  c_State :: string
  c_Status :: string
  c_Ports :: "port_binding list"
  c_Labels :: "(string \<times> string) list"
  c_NetworkSettings :: jsval
  c_Mounts :: "jsval list"

text \<open>
  When a JSON value of an upstream body carries a container: it is an object whose members
  \<open>Id\<close>, \<open>Names\<close>, \<open>Ports\<close>, \<open>State\<close> and \<open>Status\<close> are those of the container,
  an optional member that is absent being absent from the object.  The object may hold any
  other members, in any order.
\<close>

definition port_carries :: "jsval \<Rightarrow> port_binding \<Rightarrow> bool" where
  "port_carries j p =
     (case j of
        JObj fs \<Rightarrow>
          field fs ''PrivatePort'' = JNum (port_PrivatePort p)
          \<and> field fs ''PublicPort'' = (case port_PublicPort p of None \<Rightarrow> JUndefined | Some n \<Rightarrow> JNum n)
          \<and> field fs ''Type'' = JStr (port_Type p)
      | _ \<Rightarrow> False)"

definition carries :: "jsval \<Rightarrow> DockerContainer \<Rightarrow> bool" where
  "carries j c =
     (case j of
        JObj fs \<Rightarrow>
          field fs ''Id'' = JStr (c_Id c)
          \<and> field fs ''Names'' = JArr (map JStr (c_Names c))
          \<and> (case field fs ''Ports'' of
                JArr ps \<Rightarrow> list_all2 port_carries ps (c_Ports c)
              | _ \<Rightarrow> False)
          \<and> field fs ''State'' = JStr (c_State c)
          \<and> field fs ''Status'' = JStr (c_Status c)
      | _ \<Rightarrow> False)"

text \<open>The body that holds exactly the members of the interface.\<close>

definition port_json :: "port_binding \<Rightarrow> jsval" where
  "port_json p =
     JObj ((case port_IP p of None \<Rightarrow> [] | Some ip \<Rightarrow> [(''IP'', JStr ip)])
           @ [(''PrivatePort'', JNum (port_PrivatePort p))]
           @ (case port_PublicPort p of None \<Rightarrow> [] | Some n \<Rightarrow> [(''PublicPort'', JNum n)])
           @ [(''Type'', JStr (port_Type p))])"

definition container_json :: "DockerContainer \<Rightarrow> jsval" where
  "container_json c =
     JObj [(''Id'', JStr (c_Id c)),
           (''Names'', JArr (map JStr (c_Names c))),
           (''Image'', JStr (c_Image c)),
           (''ImageID'', JStr (c_ImageID c)),
           (''Command'', JStr (c_Command c)),
           (''Created'', JNum (c_Created c)),
           (''State'', JStr (c_State c)),
           (''Status'', JStr (c_Status c)),
           (''Ports'', JArr (map port_json (c_Ports c))),
           (''Labels'', JObj (map (\<lambda>(k, v). (k, JStr v)) (c_Labels c))),
           (''NetworkSettings'', c_NetworkSettings c),
           (''Mounts'', JArr (c_Mounts c))]"

section \<open>The table of tools in the specification\<close>

text \<open>
  Section 6 of the specification lists fourteen tools with their required arguments.  The
  table is written here in the specification's words; \<open>spec_arg_field\<close> gives the schema
  property that carries each argument, and \<open>operation\<close>, \<open>operation_r1\<close> say which row a
  member of the constant table stands for.  The table marks the environment identifier as
  present in some revisions only.
\<close>

datatype spec_tool =
    Fetch_containers
  | Create_container
  | Start_container
  | Delete_container
  | Fetch_container_logs
  | Update_container_limits
  | Delete_stopped_containers
  | Fetch_images
  | Delete_image_build_cache
  | Delete_unused_images
  | Fetch_networks
  | Inspect_network
  | Fetch_services
  | Fetch_service_logs

datatype spec_arg =
    Environment_id
  | Container_name
  | Container_image
  | Container_id
  | Network_id
  | Service_id

fun spec_required :: "spec_tool \<Rightarrow> spec_arg list" where
  "spec_required Fetch_containers = [Environment_id]"
| "spec_required Create_container = [Environment_id, Container_name, Container_image]"
| "spec_required Start_container = [Environment_id, Container_id]"
| "spec_required Delete_container = [Environment_id, Container_id]"
| "spec_required Fetch_container_logs = [Environment_id, Container_id]"
| "spec_required Update_container_limits = [Environment_id, Container_id]"
| "spec_required Delete_stopped_containers = [Environment_id]"
| "spec_required Fetch_images = [Environment_id]"
| "spec_required Delete_image_build_cache = [Environment_id]"
| "spec_required Delete_unused_images = [Environment_id]"
| "spec_required Fetch_networks = [Environment_id]"
| "spec_required Inspect_network = [Environment_id, Network_id]"
| "spec_required Fetch_services = [Environment_id]"
| "spec_required Fetch_service_logs = [Environment_id, Service_id]"

fun spec_arg_field :: "spec_arg \<Rightarrow> string" where
  "spec_arg_field Environment_id = ''envId''"
| "spec_arg_field Container_name = ''containerName''"
| "spec_arg_field Container_image = ''image''"
| "spec_arg_field Container_id = ''containerId''"
| "spec_arg_field Network_id = ''networkId''"
| "spec_arg_field Service_id = ''serviceId''"

fun operation :: "tool_key \<Rightarrow> spec_tool" where
  "operation FETCH_DOCKER_CONTAINERS = Fetch_containers"
| "operation CREATE_DOCKER_CONTAINER = Create_container"
| "operation START_DOCKER_CONTAINER = Start_container"
| "operation DELETE_DOCKER_CONTAINER = Delete_container"
| "operation FETCH_CONTAINER_LOGS = Fetch_container_logs"
| "operation UPDATE_CONTAINER_RESOURCE_LIMITS = Update_container_limits"
| "operation DELETE_STOPPED_CONTAINERS = Delete_stopped_containers"
| "operation FETCH_IMAGES = Fetch_images"
| "operation DELETE_IMAGE_BUILD_CACHE = Delete_image_build_cache"
| "operation DELETE_UNUSED_IMAGES = Delete_unused_images"
| "operation FETCH_NETWORKS = Fetch_networks"
| "operation INSPECT_NETWORK = Inspect_network"
| "operation FETCH_SERVICES = Fetch_services"
| "operation FETCH_SERVICE_LOG = Fetch_service_logs"

fun operation_r1 :: "tools_key_r1 \<Rightarrow> spec_tool" where
  "operation_r1 GetDockerContainers = Fetch_containers"
| "operation_r1 CreateDockerContainer = Create_container"
| "operation_r1 StartDockerContainer = Start_container"
| "operation_r1 DeleteDockerContainer = Delete_container"
| "operation_r1 GetContainerLogs = Fetch_container_logs"
| "operation_r1 UpdateContainer = Update_container_limits"
| "operation_r1 DeleteUnwantedContainers = Delete_stopped_containers"
| "operation_r1 GetImages = Fetch_images"
| "operation_r1 DeleteImageBuilderCache = Delete_image_build_cache"
| "operation_r1 DeleteUnusedImages = Delete_unused_images"
| "operation_r1 GetNetworks = Fetch_networks"
| "operation_r1 GetServices = Fetch_services"
| "operation_r1 GetServiceLogs = Fetch_service_logs"

text \<open>
  The optional arguments of the table, by the schema property that carries each:
  exposed ports and host config; force; the five log filters; memory, memory-swap and
  restart policy.
\<close>

fun spec_optional :: "spec_tool \<Rightarrow> string list" where
  "spec_optional Create_container = [''exposedPorts'', ''hostConfig'']"
| "spec_optional Delete_container = [''force'']"
| "spec_optional Fetch_container_logs = [''stdout'', ''stderr'', ''follow'', ''timestamps'', ''tail'']"
| "spec_optional Update_container_limits = [''memory'', ''memorySwap'', ''restartPolicy'']"
| "spec_optional Fetch_service_logs = [''stdout'', ''stderr'', ''follow'', ''timestamps'', ''tail'']"
| "spec_optional _ = []"

text \<open>The required list of the descriptors that carry a given name.\<close>

definition required_of :: "string \<Rightarrow> tool list \<Rightarrow> string list list" where
  "required_of n ts = map (\<lambda>d. schema_required (inputSchema d)) (filter (\<lambda>d. tool_name d = n) ts)"

text \<open>The names of the declared properties of the descriptors that carry a given name.\<close>

definition properties_of :: "string \<Rightarrow> tool list \<Rightarrow> string list list" where
  "properties_of n ts =
     map (\<lambda>d. map fst (schema_properties (inputSchema d))) (filter (\<lambda>d. tool_name d = n) ts)"

section \<open>Concrete instances\<close>

text \<open>
  \<open>constants/index.ts\<close> is not among the sources.  The README names the tools of the
  second revision by the members of \<open>TOOL\<close>; the tables below give each member its own
  name, and serve as the concrete constant tables wherever a statement is evaluated.
\<close>

fun TOOL_names :: "tool_key \<Rightarrow> string" where
  "TOOL_names FETCH_DOCKER_CONTAINERS = ''FETCH_DOCKER_CONTAINERS''"
| "TOOL_names CREATE_DOCKER_CONTAINER = ''CREATE_DOCKER_CONTAINER''"
| "TOOL_names START_DOCKER_CONTAINER = ''START_DOCKER_CONTAINER''"
| "TOOL_names DELETE_DOCKER_CONTAINER = ''DELETE_DOCKER_CONTAINER''"
| "TOOL_names FETCH_CONTAINER_LOGS = ''FETCH_CONTAINER_LOGS''"
| "TOOL_names UPDATE_CONTAINER_RESOURCE_LIMITS = ''UPDATE_CONTAINER_RESOURCE_LIMITS''"
| "TOOL_names DELETE_STOPPED_CONTAINERS = ''DELETE_STOPPED_CONTAINERS''"
| "TOOL_names FETCH_IMAGES = ''FETCH_IMAGES''"
| "TOOL_names DELETE_IMAGE_BUILD_CACHE = ''DELETE_IMAGE_BUILD_CACHE''"
| "TOOL_names DELETE_UNUSED_IMAGES = ''DELETE_UNUSED_IMAGES''"
| "TOOL_names FETCH_NETWORKS = ''FETCH_NETWORKS''"
| "TOOL_names INSPECT_NETWORK = ''INSPECT_NETWORK''"
| "TOOL_names FETCH_SERVICES = ''FETCH_SERVICES''"
| "TOOL_names FETCH_SERVICE_LOG = ''FETCH_SERVICE_LOG''"

fun Tools_names :: "tools_key_r1 \<Rightarrow> string" where
  "Tools_names GetDockerContainers = ''GetDockerContainers''"
| "Tools_names CreateDockerContainer = ''CreateDockerContainer''"
| "Tools_names StartDockerContainer = ''StartDockerContainer''"
| "Tools_names DeleteDockerContainer = ''DeleteDockerContainer''"
| "Tools_names GetContainerLogs = ''GetContainerLogs''"
| "Tools_names UpdateContainer = ''UpdateContainer''"
| "Tools_names DeleteUnwantedContainers = ''DeleteUnwantedContainers''"
| "Tools_names GetImages = ''GetImages''"
| "Tools_names DeleteImageBuilderCache = ''DeleteImageBuilderCache''"
| "Tools_names DeleteUnusedImages = ''DeleteUnusedImages''"
| "Tools_names GetNetworks = ''GetNetworks''"
| "Tools_names GetServices = ''GetServices''"
| "Tools_names GetServiceLogs = ''GetServiceLogs''"

text \<open>An error as axios rejects with when the remote API answered 404.\<close>

definition axios_error_404 :: thrown where
  "axios_error_404 =
     AxiosError
       \<lparr>error_message = ''Request failed with status code 404'',
        error_request = True,
        error_response =
          Some \<lparr>response_status = 404,
                response_data = JObj [(''message'', JStr ''No such container'')]\<rparr>\<rparr>"

text \<open>An error as axios rejects with when no response arrived within the timeout.\<close>

definition axios_error_timeout :: thrown where
  "axios_error_timeout =
     AxiosError
       \<lparr>error_message = ''timeout of 30000ms exceeded'', error_request = True,
        error_response = None\<rparr>"

text \<open>An error as axios rejects with when the request could not be set up.\<close>

definition axios_error_setup :: thrown where
  "axios_error_setup =
     AxiosError
       \<lparr>error_message = ''Invalid URL'', error_request = False, error_response = None\<rparr>"

text \<open>
  An error as axios rejects with when the remote API answered 500 with a body whose
  \<open>message\<close> is an object that has a member called \<open>toString\<close>.
\<close>

definition axios_error_odd :: thrown where
  "axios_error_odd =
     AxiosError
       \<lparr>error_message = ''Request failed with status code 500'',
        error_request = True,
        error_response =
          Some \<lparr>response_status = 500,
                response_data = JObj [(''message'', JObj [(''toString'', JNum 1)])]\<rparr>\<rparr>"

text \<open>A remote API that answers every request with 404.\<close>

definition upstream_404 :: upstream where
  "upstream_404 r = Inl axios_error_404"

text \<open>A remote API that answers every request with that 500.\<close>

definition upstream_odd :: upstream where
  "upstream_odd r = Inl axios_error_odd"

text \<open>A remote API that answers every request with an empty body.\<close>

definition upstream_null :: upstream where
  "upstream_null r = Inr JNull"

text \<open>A stand-in for the reading of numbers out of strings by the runtime: it reads none.\<close>

definition no_numbers :: "string \<Rightarrow> int option" where
  "no_numbers s = None"



text \<open>A stand-in for \<open>JSON.stringify\<close> that is right on the one body used above.\<close>

definition stringify_sample :: "jsval \<Rightarrow> string option" where
  "stringify_sample v =
     (if v = JObj [(''message'', JStr ''No such container'')]
      then Some (''{'' @ [CHR 0x22] @ ''message'' @ [CHR 0x22] @ '':'' @ [CHR 0x22] @ ''No such container''
                 @ [CHR 0x22] @ ''}'')
      else None)"





section \<open>Helper facts\<close>

lemma to_string_env_value: "to_string (env_value v) = Inr (env_text v)"
  by (cases v) (simp_all add: env_value_def env_text_def)

lemma template_Lit: "template (Lit s # ps) = and_then (template ps) (\<lambda>rest. Inr (s @ rest))"
  by simp

lemma template_Sub:
  "to_string v = Inr s \<Longrightarrow>
   template (Sub (Inr v) # ps) = and_then (template ps) (\<lambda>rest. Inr (s @ rest))"
  by (simp add: and_then_def)

lemma template_Sub_throws: "to_string v = Inl t \<Longrightarrow> template (Sub (Inr v) # ps) = Inl t"
  by (simp add: and_then_def)

lemma field_new_Error_message: "message_of (new_Error m) = JStr m"
  by (simp add: field_def new_Error_def)

lemma field_new_Error_response: "response_message (new_Error m) = JUndefined"
  by (simp add: field_def new_Error_def)

lemma show_int_404: "show_int 404 = ''404''"
  by (simp add: show_int_def show_nat.simps digit_char_def)

text \<open>
  The decimal text of a number holds digits only, and read as a decimal number it gives the
  number back.
\<close>

lemma digit_char_value: "d < 10 \<Longrightarrow> of_char (digit_char d) = 48 + d"
proof -
  assume "d < 10"
  then have "d \<in> {0, 1, 2, 3, 4, 5, 6, 7, 8, 9}"
    by auto
  then show ?thesis
    by (auto simp: digit_char_def)
qed

lemma show_nat_value:
  "foldl (\<lambda>a c. 10 * a + (of_char c - 48)) 0 (show_nat n) = n"
proof (induction n rule: show_nat.induct)
  case (1 n)
  show ?case
  proof (cases "n < 10")
    case True
    then show ?thesis
      by (subst show_nat.simps) (simp add: digit_char_value)
  next
    case False
    with 1 have "foldl (\<lambda>a c. 10 * a + (of_char c - 48)) 0 (show_nat (n div 10)) = n div 10"
      by simp
    with False show ?thesis
      by (subst show_nat.simps) (simp add: digit_char_value)
  qed
qed

section \<open>The upstream client\<close>

text \<open>
  C4.  For every environment identifier, \<open>deleteUnusedImages\<close> and
  \<open>deleteImageBuildCache\<close> issue the identical upstream request, a DELETE against
  \<open>/api/endpoints/{envId}/docker/images/prune\<close> with no parameters and no body, and are
  equal as functions.  The path holds the identifier as the template literal prints it; an
  identifier that has no text makes both throw alike before any request.  The same holds in
  the client of the first revision, where the environment identifier is the start-up
  default.
\<close>

theorem deleteUnusedImages_eq_deleteImageBuildCache:
  "deleteUnusedImages = deleteImageBuildCache
   \<and> (to_string envId = Inr e \<longrightarrow>
        fst (deleteUnusedImages stringify up envId) =
          [\<lparr>req_method = DELETE,
            req_url = ''/api/endpoints/'' @ e @ ''/docker/images/prune'',
            req_params = None, req_data = None\<rparr>])
   \<and> (to_string envId = Inl t \<longrightarrow> deleteUnusedImages stringify up envId = ([], Inl t))
   \<and> fst (deleteImageBuildCache stringify up envId) = fst (deleteUnusedImages stringify up envId)
   \<and> deleteUnusedImages_r1 = deleteImageBuildCache_r1
   \<and> fst (deleteUnusedImages_r1 PORTAINER_ENV_ID up) =
       [\<lparr>req_method = DELETE,
         req_url = ''/api/endpoints/'' @ env_text PORTAINER_ENV_ID @ ''/docker/images/prune'',
         req_params = None, req_data = None\<rparr>]"
proof -
  have eq2: "deleteUnusedImages = deleteImageBuildCache"
    by (intro ext) (simp add: deleteUnusedImages_def deleteImageBuildCache_def)
  have eq1: "deleteUnusedImages_r1 = deleteImageBuildCache_r1"
    by (intro ext) (simp add: deleteUnusedImages_r1_def deleteImageBuildCache_r1_def)
  have sent2: "to_string envId = Inr e \<Longrightarrow>
       fst (deleteUnusedImages stringify up envId) =
       [\<lparr>req_method = DELETE,
         req_url = ''/api/endpoints/'' @ e @ ''/docker/images/prune'',
         req_params = None, req_data = None\<rparr>]"
    by (simp add: deleteUnusedImages_def request_at_def and_then_def handleRequest_def
          axios_delete_def Let_def)
  have thrown2: "to_string envId = Inl t \<Longrightarrow> deleteUnusedImages stringify up envId = ([], Inl t)"
    by (simp add: deleteUnusedImages_def request_at_def and_then_def)
  have sent1: "fst (deleteUnusedImages_r1 PORTAINER_ENV_ID up) =
       [\<lparr>req_method = DELETE,
         req_url = ''/api/endpoints/'' @ env_text PORTAINER_ENV_ID @ ''/docker/images/prune'',
         req_params = None, req_data = None\<rparr>]"
    by (simp add: deleteUnusedImages_r1_def request_at_def and_then_def to_string_env_value
          axios_delete_def Let_def)
  from eq2 eq1 sent2 thrown2 sent1 show ?thesis by simp
qed

theorem deleteUnusedImages_eq_deleteImageBuildCache_witness:
  "to_string (JStr ''2'') = Inr ''2''
   \<and> fst (deleteUnusedImages stringify_sample upstream_null (JStr ''2'')) =
       [\<lparr>req_method = DELETE, req_url = ''/api/endpoints/2/docker/images/prune'',
         req_params = None, req_data = None\<rparr>]
   \<and> fst (deleteImageBuildCache stringify_sample upstream_null (JStr ''2'')) =
       [\<lparr>req_method = DELETE, req_url = ''/api/endpoints/2/docker/images/prune'',
         req_params = None, req_data = None\<rparr>]
   \<and> to_string (JObj [(''toString'', JNum 1)]) = Inl (TypeError ''Cannot convert object to primitive value'')
   \<and> deleteUnusedImages stringify_sample upstream_null (JObj [(''toString'', JNum 1)]) =
       ([], Inl (TypeError ''Cannot convert object to primitive value''))"
proof -
  have c: "to_string (JStr ''2'') = Inr ''2''"
    by simp
  have o: "to_string (JObj [(''toString'', JNum 1)]) = Inl (TypeError ''Cannot convert object to primitive value'')"
    by simp
  note t = deleteUnusedImages_eq_deleteImageBuildCache
    [where envId = "JStr ''2''" and e = "''2''" and stringify = stringify_sample and up = upstream_null
       and t = "TypeError ''Cannot convert object to primitive value''"
       and PORTAINER_ENV_ID = None]
  note t2 = deleteUnusedImages_eq_deleteImageBuildCache
    [where envId = "JObj [(''toString'', JNum 1)]" and e = "''2''"
       and t = "TypeError ''Cannot convert object to primitive value''"
       and stringify = stringify_sample and up = upstream_null and PORTAINER_ENV_ID = None]
  have app: "''/api/endpoints/'' @ ''2'' @ ''/docker/images/prune'' = ''/api/endpoints/2/docker/images/prune''"
    by simp
  from t [THEN conjunct2, THEN conjunct1, rule_format, OF c]
  have a: "fst (deleteUnusedImages stringify_sample upstream_null (JStr ''2'')) =
       [\<lparr>req_method = DELETE, req_url = ''/api/endpoints/2/docker/images/prune'',
         req_params = None, req_data = None\<rparr>]"
    unfolding app .
  from t [THEN conjunct2, THEN conjunct2, THEN conjunct2, THEN conjunct1] a
  have b: "fst (deleteImageBuildCache stringify_sample upstream_null (JStr ''2'')) =
       [\<lparr>req_method = DELETE, req_url = ''/api/endpoints/2/docker/images/prune'',
         req_params = None, req_data = None\<rparr>]"
    by (rule trans)
  from t2 [THEN conjunct2, THEN conjunct2, THEN conjunct1, rule_format, OF o]
  have d: "deleteUnusedImages stringify_sample upstream_null (JObj [(''toString'', JNum 1)]) =
       ([], Inl (TypeError ''Cannot convert object to primitive value''))" .
  from c a b o d show ?thesis
    by (intro conjI)
qed

text \<open>
  C2 (as amended).  \<open>handleRequest\<close> returns the response body when the request succeeds
  and raises on every failure, never returning a value then.  A rejection that axios marks
  as its own is raised anew in exactly one of three kinds: when it carries a response, as
  \<open>Portainer API error: <status> - <serialized body>\<close>; otherwise, when it carries the
  request that was sent, as \<open>No response from Portainer API: <message>\<close>; otherwise as
  \<open>Error setting up request to Portainer API: <message>\<close>.  Any other thrown value is
  raised again unchanged.
\<close>

theorem handleRequest_outcomes:
  "handleRequest stringify (sent, Inr body) = (sent, Inr body)
   \<and> (\<exists>e. handleRequest stringify (sent, Inl error) = (sent, Inl e))
   \<and> isAxiosError (AxiosError axiosError)
   \<and> (error_response axiosError = Some response \<longrightarrow>
        handleRequest stringify (sent, Inl (AxiosError axiosError)) =
          (sent, Inl (new_Error (''Portainer API error: ''
                                 @ show_int (sint (response_status response))
                                 @ '' - ''
                                 @ stringified (stringify (response_data response))))))
   \<and> (error_response axiosError = None \<and> error_request axiosError \<longrightarrow>
        handleRequest stringify (sent, Inl (AxiosError axiosError)) =
          (sent, Inl (new_Error (''No response from Portainer API: ''
                                 @ error_message axiosError))))
   \<and> (error_response axiosError = None \<and> \<not> error_request axiosError \<longrightarrow>
        handleRequest stringify (sent, Inl (AxiosError axiosError)) =
          (sent, Inl (new_Error (''Error setting up request to Portainer API: ''
                                 @ error_message axiosError))))
   \<and> (\<not> isAxiosError error \<longrightarrow> handleRequest stringify (sent, Inl error) = (sent, Inl error))"
proof -
  have ok: "handleRequest stringify (sent, Inr body) = (sent, Inr body)"
    by (simp add: handleRequest_def)
  have rejected: "error_response axiosError = Some response \<Longrightarrow>
        handleRequest stringify (sent, Inl (AxiosError axiosError)) =
          (sent, Inl (new_Error (''Portainer API error: ''
                                 @ show_int (sint (response_status response))
                                 @ '' - ''
                                 @ stringified (stringify (response_data response)))))"
    by (simp add: handleRequest_def)
  have unreachable: "error_response axiosError = None \<Longrightarrow> error_request axiosError \<Longrightarrow>
        handleRequest stringify (sent, Inl (AxiosError axiosError)) =
          (sent, Inl (new_Error (''No response from Portainer API: ''
                                 @ error_message axiosError)))"
    by (simp add: handleRequest_def)
  have not_sent: "error_response axiosError = None \<Longrightarrow> \<not> error_request axiosError \<Longrightarrow>
        handleRequest stringify (sent, Inl (AxiosError axiosError)) =
          (sent, Inl (new_Error (''Error setting up request to Portainer API: ''
                                 @ error_message axiosError)))"
    by (simp add: handleRequest_def)
  have other: "\<not> isAxiosError error \<Longrightarrow> handleRequest stringify (sent, Inl error) = (sent, Inl error)"
    by (simp add: handleRequest_def)
  have raises: "\<exists>e. handleRequest stringify (sent, Inl error) = (sent, Inl e)"
    by (cases error)
       (auto simp: handleRequest_def split: option.splits)
  from ok raises rejected unreachable not_sent other show ?thesis by simp
qed

theorem handleRequest_outcomes_witness:
  "handleRequest stringify_sample ([], Inl axios_error_404) =
       ([], Inl (new_Error (''Portainer API error: 404 - {'' @ [CHR 0x22] @ ''message'' @ [CHR 0x22]
                            @ '':'' @ [CHR 0x22] @ ''No such container'' @ [CHR 0x22] @ ''}'')))
   \<and> handleRequest stringify_sample ([], Inl axios_error_timeout) =
       ([], Inl (new_Error ''No response from Portainer API: timeout of 30000ms exceeded''))
   \<and> handleRequest stringify_sample ([], Inl axios_error_setup) =
       ([], Inl (new_Error ''Error setting up request to Portainer API: Invalid URL''))
   \<and> \<not> isAxiosError (TypeError ''Invalid URL'')
   \<and> handleRequest stringify_sample ([], Inl (TypeError ''Invalid URL'')) =
       ([], Inl (TypeError ''Invalid URL''))"
proof -
  let ?r = "\<lparr>response_status = 404,
             response_data = JObj [(''message'', JStr ''No such container'')]\<rparr>"
  let ?e404 = "\<lparr>error_message = ''Request failed with status code 404'', error_request = True,
                error_response = Some ?r\<rparr>"
  let ?etime = "\<lparr>error_message = ''timeout of 30000ms exceeded'', error_request = True,
                 error_response = None\<rparr>"
  let ?esetup = "\<lparr>error_message = ''Invalid URL'', error_request = False,
                  error_response = (None :: axios_response option)\<rparr>"
  have d: "\<not> isAxiosError (TypeError ''Invalid URL'')"
    by (simp add: TypeError_def)
  have s: "stringified (stringify_sample (JObj [(''message'', JStr ''No such container'')])) =
             ''{'' @ [CHR 0x22] @ ''message'' @ [CHR 0x22] @ '':'' @ [CHR 0x22] @ ''No such container''
               @ [CHR 0x22] @ ''}''"
    by (simp add: stringify_sample_def stringified_def)
  from handleRequest_outcomes
    [where stringify = stringify_sample and sent = "[]" and axiosError = ?e404 and response = ?r
       and body = JNull and error = axios_error_404]
  have a: "handleRequest stringify_sample ([], Inl axios_error_404) =
       ([], Inl (new_Error (''Portainer API error: 404 - {'' @ [CHR 0x22] @ ''message'' @ [CHR 0x22]
                            @ '':'' @ [CHR 0x22] @ ''No such container'' @ [CHR 0x22] @ ''}'')))"
    by (simp add: axios_error_404_def show_int_404 s [simplified])
  from handleRequest_outcomes
    [where stringify = stringify_sample and sent = "[]" and axiosError = ?etime
       and body = JNull and error = axios_error_404]
  have b: "handleRequest stringify_sample ([], Inl axios_error_timeout) =
       ([], Inl (new_Error ''No response from Portainer API: timeout of 30000ms exceeded''))"
    by (simp add: axios_error_timeout_def)
  from handleRequest_outcomes
    [where stringify = stringify_sample and sent = "[]" and axiosError = ?esetup
       and body = JNull and error = axios_error_404]
  have c: "handleRequest stringify_sample ([], Inl axios_error_setup) =
       ([], Inl (new_Error ''Error setting up request to Portainer API: Invalid URL''))"
    by (simp add: axios_error_setup_def)
  from handleRequest_outcomes
    [where stringify = stringify_sample and sent = "[]" and error = "TypeError ''Invalid URL''"
       and body = JNull and axiosError = ?esetup] d
  have e: "handleRequest stringify_sample ([], Inl (TypeError ''Invalid URL'')) =
       ([], Inl (TypeError ''Invalid URL''))"
    by blast
  from a b c d e show ?thesis
    by (intro conjI)
qed

text \<open>
  C2 as stated fails: a rejection that is not an axios error is none of the three kinds.
  It is not raised as \<open>Error setting up request to Portainer API: ...\<close> but as it came.
\<close>

theorem handleRequest_other_error_counterexample:
  "\<not> isAxiosError (TypeError ''Invalid URL'')
   \<and> snd (handleRequest stringify_sample ([], Inl (TypeError ''Invalid URL'')))
       = Inl (TypeError ''Invalid URL'')
   \<and> message_of (TypeError ''Invalid URL'')
       \<noteq> JStr ''Error setting up request to Portainer API: Invalid URL''
   \<and> TypeError ''Invalid URL'' \<noteq> new_Error ''Error setting up request to Portainer API: Invalid URL''"
  by (simp add: handleRequest_def TypeError_def new_Error_def field_def)

section \<open>Failure and recovery of a tool call\<close>

lemma axios_get_fails: "\<forall>r. \<exists>e. up r = Inl e \<Longrightarrow> \<exists>e. snd (axios_get up u ps) = Inl e"
  by (simp add: axios_get_def Let_def)

lemma axios_post_fails: "\<forall>r. \<exists>e. up r = Inl e \<Longrightarrow> \<exists>e. snd (axios_post up u b) = Inl e"
  by (simp add: axios_post_def Let_def)

lemma axios_delete_fails: "\<forall>r. \<exists>e. up r = Inl e \<Longrightarrow> \<exists>e. snd (axios_delete up u ps) = Inl e"
  by (simp add: axios_delete_def Let_def)

lemma returns_nothing_fails: "\<exists>e. snd rq = Inl e \<Longrightarrow> \<exists>e. snd (returns_nothing rq) = Inl e"
  by (cases rq) (auto simp: returns_nothing_def)

lemma then_reply_fails: "\<exists>e. snd rq = Inl e \<Longrightarrow> \<exists>e. snd (then_reply rq f) = Inl e"
  by (cases rq) (auto simp: then_reply_def and_then_def)

lemma as_result_fails: "\<exists>e. snd rq = Inl e \<Longrightarrow> \<exists>e. snd (as_result rq) = Inl e"
  by (cases rq) (auto simp: as_result_def and_then_def)

lemma handleRequest_fails: "\<exists>e. snd rq = Inl e \<Longrightarrow> \<exists>e. snd (handleRequest stringify rq) = Inl e"
proof -
  assume "\<exists>e. snd rq = Inl e"
  then obtain sent e where rq: "rq = (sent, Inl e)"
    by (cases rq) auto
  show ?thesis
    unfolding rq by (cases e) (auto simp: handleRequest_def split: option.splits)
qed

lemma request_at_fails:
  "(\<And>url. \<exists>e. snd (issue url) = Inl e) \<Longrightarrow> \<exists>e. snd (request_at path issue) = Inl e"
  by (cases path) (simp_all add: request_at_def)

lemmas client_r1_defs =
  fetchDockerContainers_r1_def createDockerContainer_r1_def startDockerContainer_r1_def
  deleteDockerContainer_r1_def fetchContainerLogs_r1_def updateContainerResourceLimits_r1_def
  pruneContainer_r1_def fetchImages_r1_def deleteImageBuildCache_r1_def deleteUnusedImages_r1_def
  fetchNetworks_r1_def fetchServices_r1_def fetchServiceLog_r1_def

lemmas client_defs =
  fetchDockerContainers_def createDockerContainer_def startDockerContainer_def
  deleteDockerContainer_def fetchContainerLogs_def updateContainerResourceLimits_def
  deleteStoppedContainers_def fetchImages_def deleteImageBuildCache_def deleteUnusedImages_def
  fetchNetworks_def inspectNetwork_def fetchServices_def fetchServiceLog_def

lemma if_fails:
  "\<exists>e. snd a = Inl e \<Longrightarrow> \<exists>e. snd b = Inl e \<Longrightarrow> \<exists>e. snd (if c then a else b) = Inl e"
  by simp

lemma thrown_fails: "\<exists>e. snd (sent, Inl error) = Inl e"
  by simp

lemmas fails_intros =
  if_fails request_at_fails axios_get_fails axios_post_fails axios_delete_fails returns_nothing_fails
  then_reply_fails as_result_fails handleRequest_fails thrown_fails

lemma dispatch_r1_fails:
  assumes "\<forall>r. \<exists>e. up r = Inl e"
  shows "\<exists>e. snd (dispatch_r1 Tools StringToNumber PORTAINER_ENV_ID up name args) = Inl e"
proof (cases args)
  case None
  then show ?thesis by (simp add: dispatch_r1_def)
next
  case (Some typedArgs)
  note up = assms
  show ?thesis
    unfolding dispatch_r1_def Some option.case client_r1_defs
    by (intro fails_intros up)
qed

lemma CallTool_handler_fails:
  assumes "\<forall>r. \<exists>e. up r = Inl e"
  shows "\<exists>e. snd (CallTool_handler TOOL stringify up name args) = Inl e"
proof (cases args)
  case None
  then show ?thesis by (simp add: CallTool_handler_def)
next
  case (Some typedArgs)
  note up = assms
  show ?thesis
    unfolding CallTool_handler_def Some option.case client_defs
    by (intro fails_intros up)
qed

lemma dispatch_r1_no_arguments:
  "dispatch_r1 Tools StringToNumber PORTAINER_ENV_ID up name None =
     ([], Inl (new_Error (''No arguments provided for tool: '' @ name)))"
  by (simp add: dispatch_r1_def)

lemma errorMessage_new_Error:
  "errorMessage (new_Error (prefix @ c # rest)) = JStr (prefix @ c # rest)"
  by (simp add: errorMessage_def js_or_def field_new_Error_message field_new_Error_response)

lemma CallTool_handler_r1_caught:
  "snd (dispatch_r1 Tools StringToNumber PORTAINER_ENV_ID up name args) = Inl error \<Longrightarrow>
   to_string (errorMessage error) = Inr m \<Longrightarrow>
   CallTool_handler_r1 Tools StringToNumber PORTAINER_ENV_ID up name args =
     (fst (dispatch_r1 Tools StringToNumber PORTAINER_ENV_ID up name args),
      Inr (text_reply (JStr (''Failed: '' @ m))))"
  by (cases "dispatch_r1 Tools StringToNumber PORTAINER_ENV_ID up name args")
     (simp add: CallTool_handler_r1_def text_of_template_def and_then_def)

lemma CallTool_handler_r1_catch_throws:
  "snd (dispatch_r1 Tools StringToNumber PORTAINER_ENV_ID up name args) = Inl error \<Longrightarrow>
   to_string (errorMessage error) = Inl t \<Longrightarrow>
   CallTool_handler_r1 Tools StringToNumber PORTAINER_ENV_ID up name args =
     (fst (dispatch_r1 Tools StringToNumber PORTAINER_ENV_ID up name args), Inl t)"
  by (cases "dispatch_r1 Tools StringToNumber PORTAINER_ENV_ID up name args")
     (simp add: CallTool_handler_r1_def text_of_template_def and_then_def)

lemma CallTool_handler_r1_passed:
  "snd (dispatch_r1 Tools StringToNumber PORTAINER_ENV_ID up name args) = Inr r \<Longrightarrow>
   CallTool_handler_r1 Tools StringToNumber PORTAINER_ENV_ID up name args =
     (fst (dispatch_r1 Tools StringToNumber PORTAINER_ENV_ID up name args), Inr r)"
  by (cases "dispatch_r1 Tools StringToNumber PORTAINER_ENV_ID up name args")
     (simp add: CallTool_handler_r1_def)

lemma dispatch_r1_unknown:
  "\<forall>k. name \<noteq> Tools k \<Longrightarrow>
   dispatch_r1 Tools StringToNumber PORTAINER_ENV_ID up name (Some typedArgs) =
     ([], Inl (new_Error (''Unknown tool: '' @ name)))"
  by (simp add: dispatch_r1_def)

lemma CallTool_handler_unknown:
  "\<forall>k. name \<noteq> TOOL k \<Longrightarrow>
   CallTool_handler TOOL stringify up name (Some typedArgs) =
     ([], Inl (new_Error (''Unknown tool: '' @ name)))"
  by (simp add: CallTool_handler_def)

lemma CallTool_handler_r1_no_arguments:
  "CallTool_handler_r1 Tools StringToNumber PORTAINER_ENV_ID up name None =
     ([], Inr (text_reply (JStr (''Failed: No arguments provided for tool: '' @ name))))"
proof -
  have "to_string (errorMessage (new_Error (''No arguments provided for tool: '' @ name))) =
          Inr (''No arguments provided for tool: '' @ name)"
    using errorMessage_new_Error [of "''No arguments provided for tool'' @ '':''" "CHR '' ''" name]
    by simp
  from CallTool_handler_r1_caught [OF _ this, where args = None and name = name]
  show ?thesis
    by (simp add: dispatch_r1_no_arguments)
qed

lemma CallTool_handler_r1_unknown:
  assumes "\<forall>k. name \<noteq> Tools k"
  shows "CallTool_handler_r1 Tools StringToNumber PORTAINER_ENV_ID up name (Some typedArgs) =
     ([], Inr (text_reply (JStr (''Failed: Unknown tool: '' @ name))))"
proof -
  have "to_string (errorMessage (new_Error (''Unknown tool: '' @ name))) =
          Inr (''Unknown tool: '' @ name)"
    using errorMessage_new_Error [of "''Unknown tool'' @ '':''" "CHR '' ''" name]
    by simp
  from CallTool_handler_r1_caught [OF _ this, where args = "Some typedArgs" and name = name]
  show ?thesis
    by (simp add: dispatch_r1_unknown [OF assms])
qed

lemma Tools_names_unknown: "\<forall>k. ''NoSuchTool'' \<noteq> Tools_names k"
proof
  fix k show "''NoSuchTool'' \<noteq> Tools_names k" by (cases k) simp_all
qed

lemma TOOL_names_unknown: "\<forall>k. ''NoSuchTool'' \<noteq> TOOL_names k"
proof
  fix k show "''NoSuchTool'' \<noteq> TOOL_names k" by (cases k) simp_all
qed

text \<open>
  The \<open>catch\<close> clause does not hold back everything: when the remote API rejects a
  \<open>start container\<close> call with a body whose \<open>message\<close> is an object that has a member
  called \<open>toString\<close>, building the text \<open>Failed: ...\<close> throws, and the handler of the first
  revision ends with that error and not with a reply.
\<close>

lemma CallTool_handler_r1_message_without_text:
  "snd (CallTool_handler_r1 Tools_names no_numbers (Some ''2'') upstream_odd
          ''StartDockerContainer'' (Some [(''containerId'', JStr ''4f1c'')])) =
     Inl (TypeError ''Cannot convert object to primitive value'')"
proof -
  have d: "snd (dispatch_r1 Tools_names no_numbers (Some ''2'') upstream_odd
             ''StartDockerContainer'' (Some [(''containerId'', JStr ''4f1c'')])) = Inl axios_error_odd"
    by (simp add: dispatch_r1_def startDockerContainer_r1_def request_at_def returns_nothing_def
          axios_post_def then_reply_def and_then_def Let_def upstream_odd_def field_def
          to_string_env_value)
  have m: "to_string (errorMessage axios_error_odd) =
             Inl (TypeError ''Cannot convert object to primitive value'')"
    by (simp add: errorMessage_def js_or_def axios_error_odd_def field_def)
  from CallTool_handler_r1_catch_throws [OF d m] show ?thesis
    by simp
qed

text \<open>
  C1 (as amended).  In the first revision the handler wraps the dispatch in \<open>try\<close> and
  \<open>catch\<close>: whatever the dispatch throws (missing arguments, an unknown tool name, a
  rejected upstream request, or a failure while the result is formatted) is caught, and
  the reply is the text \<open>Failed: <message>\<close>, where the message is the first truthy one of
  the \<open>data.message\<close> of the upstream response, the \<open>message\<close> of the thrown value, and
  \<open>Cannot process the request\<close>, for every such message that has a text; a string has
  itself as its text.  In the second revision the handler has no \<open>try\<close>: the same failures
  leave it as thrown errors.
\<close>

theorem CallTool_failure_replies:
  "(\<forall>r. snd (dispatch_r1 Tools StringToNumber PORTAINER_ENV_ID up name args) = Inr r \<longrightarrow>
         snd (CallTool_handler_r1 Tools StringToNumber PORTAINER_ENV_ID up name args) = Inr r)
   \<and> (\<forall>error m.
         snd (dispatch_r1 Tools StringToNumber PORTAINER_ENV_ID up name args) = Inl error
         \<and> to_string
             (if truthy (response_message error) then response_message error
              else if truthy (message_of error) then message_of error
              else JStr ''Cannot process the request'') = Inr m \<longrightarrow>
         snd (CallTool_handler_r1 Tools StringToNumber PORTAINER_ENV_ID up name args) =
           Inr (text_reply (JStr (''Failed: '' @ m))))
   \<and> (\<forall>s. to_string (JStr s) = Inr s)
   \<and> fst (CallTool_handler_r1 Tools StringToNumber PORTAINER_ENV_ID up name args) =
       fst (dispatch_r1 Tools StringToNumber PORTAINER_ENV_ID up name args)
   \<and> CallTool_handler_r1 Tools StringToNumber PORTAINER_ENV_ID up name None =
       ([], Inr (text_reply (JStr (''Failed: No arguments provided for tool: '' @ name))))
   \<and> ((\<forall>k. name \<noteq> Tools k) \<longrightarrow>
         CallTool_handler_r1 Tools StringToNumber PORTAINER_ENV_ID up name (Some typedArgs) =
           ([], Inr (text_reply (JStr (''Failed: Unknown tool: '' @ name)))))
   \<and> CallTool_handler TOOL stringify up name None =
       ([], Inl (new_Error (''No arguments provided for tool: '' @ name)))
   \<and> ((\<forall>r. \<exists>e. up r = Inl e) \<longrightarrow>
         (\<exists>e. snd (CallTool_handler TOOL stringify up name args) = Inl e))"
proof -
  let ?d = "dispatch_r1 Tools StringToNumber PORTAINER_ENV_ID up name args"
  let ?h = "CallTool_handler_r1 Tools StringToNumber PORTAINER_ENV_ID up name args"
  have caught: "snd ?d = Inl error \<and> to_string
             (if truthy (response_message error) then response_message error
              else if truthy (message_of error) then message_of error
              else JStr ''Cannot process the request'') = Inr m \<Longrightarrow>
         snd ?h = Inr (text_reply (JStr (''Failed: '' @ m)))" for error m
  proof -
    assume a: "snd ?d = Inl error \<and> to_string
             (if truthy (response_message error) then response_message error
              else if truthy (message_of error) then message_of error
              else JStr ''Cannot process the request'') = Inr m"
    then have "to_string (errorMessage error) = Inr m"
      by (simp add: errorMessage_def js_or_def split: if_splits)
    with a show ?thesis
      by (simp add: CallTool_handler_r1_caught)
  qed
  have passed: "snd ?d = Inr r \<Longrightarrow> snd ?h = Inr r" for r
    by (simp add: CallTool_handler_r1_passed)
  have sent: "fst ?h = fst ?d"
    by (cases ?d) (simp add: CallTool_handler_r1_def)
  have no_args2: "CallTool_handler TOOL stringify up name None =
       ([], Inl (new_Error (''No arguments provided for tool: '' @ name)))"
    by (simp add: CallTool_handler_def)
  have failing2: "\<forall>r. \<exists>e. up r = Inl e \<Longrightarrow>
         \<exists>e. snd (CallTool_handler TOOL stringify up name args) = Inl e"
    by (rule CallTool_handler_fails)
  have strings: "\<forall>s. to_string (JStr s) = Inr s"
    by simp
  from caught passed sent strings no_args2 failing2
    CallTool_handler_r1_no_arguments [of Tools StringToNumber PORTAINER_ENV_ID up name]
    CallTool_handler_r1_unknown [of name Tools StringToNumber PORTAINER_ENV_ID up typedArgs]
  show ?thesis
    by blast
qed

theorem CallTool_failure_replies_witness:
  "snd (dispatch_r1 Tools_names no_numbers (Some ''2'') upstream_404
          ''StartDockerContainer'' (Some [(''containerId'', JStr ''4f1c'')])) = Inl axios_error_404
   \<and> response_message axios_error_404 = JStr ''No such container''
   \<and> snd (CallTool_handler_r1 Tools_names no_numbers (Some ''2'') upstream_404
          ''StartDockerContainer'' (Some [(''containerId'', JStr ''4f1c'')])) =
       Inr (text_reply (JStr ''Failed: No such container''))
   \<and> (\<forall>k. ''NoSuchTool'' \<noteq> Tools_names k)
   \<and> CallTool_handler_r1 Tools_names no_numbers (Some ''2'') upstream_404
          ''NoSuchTool'' (Some []) =
       ([], Inr (text_reply (JStr ''Failed: Unknown tool: NoSuchTool'')))
   \<and> (\<forall>r. \<exists>e. upstream_404 r = Inl e)
   \<and> (\<exists>e. snd (CallTool_handler TOOL_names stringify_sample upstream_404
               ''START_DOCKER_CONTAINER''
               (Some [(''envId'', JStr ''2''), (''containerId'', JStr ''4f1c'')])) = Inl e)"
proof -
  let ?up = "upstream_404"
  let ?S = "no_numbers"
  let ?h = "CallTool_handler_r1 Tools_names ?S (Some ''2'') ?up
          ''StartDockerContainer'' (Some [(''containerId'', JStr ''4f1c'')])"
  have d: "snd (dispatch_r1 Tools_names ?S (Some ''2'') ?up
             ''StartDockerContainer'' (Some [(''containerId'', JStr ''4f1c'')])) = Inl axios_error_404"
    by (simp add: dispatch_r1_def startDockerContainer_r1_def request_at_def returns_nothing_def
          axios_post_def then_reply_def and_then_def Let_def upstream_404_def field_def
          to_string_env_value)
  have m: "response_message axios_error_404 = JStr ''No such container''"
    by (simp add: axios_error_404_def field_def)
  have c: "to_string
             (if truthy (response_message axios_error_404) then response_message axios_error_404
              else if truthy (message_of axios_error_404) then message_of axios_error_404
              else JStr ''Cannot process the request'') = Inr ''No such container''"
    by (simp add: m)
  have u: "\<forall>r. \<exists>e. ?up r = Inl e"
    by (simp add: upstream_404_def)
  note t1 = CallTool_failure_replies
    [where Tools = Tools_names and StringToNumber = ?S and PORTAINER_ENV_ID = "Some ''2''"
       and up = ?up and name = "''StartDockerContainer''"
       and args = "Some [(''containerId'', JStr ''4f1c'')]"
       and TOOL = TOOL_names and stringify = stringify_sample and typedArgs = "[]"]
  note t2 = CallTool_failure_replies
    [where Tools = Tools_names and StringToNumber = ?S and PORTAINER_ENV_ID = "Some ''2''"
       and up = ?up and name = "''NoSuchTool''" and args = None
       and TOOL = TOOL_names and stringify = stringify_sample and typedArgs = "[]"]
  note t3 = CallTool_failure_replies
    [where Tools = Tools_names and StringToNumber = ?S and PORTAINER_ENV_ID = "Some ''2''"
       and up = ?up and name = "''START_DOCKER_CONTAINER''"
       and args = "Some [(''envId'', JStr ''2''), (''containerId'', JStr ''4f1c'')]"
       and TOOL = TOOL_names and stringify = stringify_sample and typedArgs = "[]"]
  from t1 [THEN conjunct2, THEN conjunct1, rule_format, of axios_error_404 "''No such container''"] d c
  have "snd ?h = Inr (text_reply (JStr (''Failed: '' @ ''No such container'')))"
    by blast
  then have r1: "snd ?h = Inr (text_reply (JStr ''Failed: No such container''))"
    by simp
  have r2: "CallTool_handler_r1 Tools_names ?S (Some ''2'') ?up ''NoSuchTool'' (Some []) =
       ([], Inr (text_reply (JStr ''Failed: Unknown tool: NoSuchTool'')))"
    using t2 Tools_names_unknown by simp
  have r3: "\<exists>e. snd (CallTool_handler TOOL_names stringify_sample ?up ''START_DOCKER_CONTAINER''
               (Some [(''envId'', JStr ''2''), (''containerId'', JStr ''4f1c'')])) = Inl e"
    using t3 u by blast
  from d m r1 Tools_names_unknown r2 u r3 show ?thesis
    by blast
qed

text \<open>
  C1 as stated fails on the second revision: with the remote API answering 404 to a
  \<open>start container\<close> call, the handler does not reply \<open>Failed: ...\<close> but throws the error
  of the upstream client.
\<close>

theorem CallTool_handler_throws_counterexample:
  "snd (CallTool_handler TOOL_names stringify_sample upstream_404
          ''START_DOCKER_CONTAINER''
          (Some [(''envId'', JStr ''2''), (''containerId'', JStr ''4f1c'')])) =
     Inl (new_Error (''Portainer API error: 404 - {'' @ [CHR 0x22] @ ''message'' @ [CHR 0x22]
                     @ '':'' @ [CHR 0x22] @ ''No such container'' @ [CHR 0x22] @ ''}''))"
proof -
  have h: "snd (handleRequest stringify_sample (sent, Inl axios_error_404)) =
     Inl (new_Error (''Portainer API error: 404 - {'' @ [CHR 0x22] @ ''message'' @ [CHR 0x22]
                     @ '':'' @ [CHR 0x22] @ ''No such container'' @ [CHR 0x22] @ ''}''))" for sent
    by (simp add: handleRequest_def axios_error_404_def show_int_404 stringify_sample_def
          stringified_def)
  have a: "snd (as_result rq) = Inl e" if "snd rq = Inl e" for rq e
    using that by (cases rq) (simp add: as_result_def and_then_def)
  have c: "CallTool_handler TOOL_names stringify_sample upstream_404
          ''START_DOCKER_CONTAINER''
          (Some [(''envId'', JStr ''2''), (''containerId'', JStr ''4f1c'')]) =
        as_result (startDockerContainer stringify_sample upstream_404
                     (JStr ''2'') (JStr ''4f1c''))"
    by (simp add: CallTool_handler_def field_def)
  show ?thesis
    unfolding c
    by (rule a)
       (simp add: startDockerContainer_def request_at_def and_then_def axios_post_def Let_def h
          upstream_404_def)
qed

text \<open>
  C7 (as amended).  For every tool-call request that carries an arguments object and whose
  name matches no registered tool, no upstream call is made; the first revision replies
  with the text \<open>Failed: Unknown tool: <name>\<close> exactly, and the second revision, which
  has no \<open>try\<close>, throws an error whose message is \<open>Unknown tool: <name>\<close>.  A request
  without an arguments object fails on that first, whatever its name: with
  \<open>No arguments provided for tool: <name>\<close>, again without any upstream call.
\<close>

theorem unknown_tool_name:
  "((\<forall>k. name \<noteq> Tools k) \<longrightarrow>
      CallTool_handler_r1 Tools StringToNumber PORTAINER_ENV_ID up name (Some typedArgs) =
        ([], Inr (text_reply (JStr (''Failed: Unknown tool: '' @ name)))))
   \<and> ((\<forall>k. name \<noteq> TOOL k) \<longrightarrow>
      CallTool_handler TOOL stringify up name (Some typedArgs) =
        ([], Inl (new_Error (''Unknown tool: '' @ name))))
   \<and> CallTool_handler_r1 Tools StringToNumber PORTAINER_ENV_ID up name None =
        ([], Inr (text_reply (JStr (''Failed: No arguments provided for tool: '' @ name))))
   \<and> CallTool_handler TOOL stringify up name None =
        ([], Inl (new_Error (''No arguments provided for tool: '' @ name)))"
proof -
  have none2: "CallTool_handler TOOL stringify up name None =
        ([], Inl (new_Error (''No arguments provided for tool: '' @ name)))"
    by (simp add: CallTool_handler_def)
  from none2
    CallTool_handler_r1_unknown [of name Tools StringToNumber PORTAINER_ENV_ID up typedArgs]
    CallTool_handler_unknown [of name TOOL stringify up typedArgs]
    CallTool_handler_r1_no_arguments [of Tools StringToNumber PORTAINER_ENV_ID up name]
  show ?thesis by blast
qed

theorem unknown_tool_name_witness:
  "(\<forall>k. ''NoSuchTool'' \<noteq> Tools_names k)
   \<and> CallTool_handler_r1 Tools_names no_numbers (Some ''2'') upstream_null ''NoSuchTool''
        (Some [(''envId'', JStr ''2'')]) =
        ([], Inr (text_reply (JStr ''Failed: Unknown tool: NoSuchTool'')))
   \<and> (\<forall>k. ''NoSuchTool'' \<noteq> TOOL_names k)
   \<and> CallTool_handler TOOL_names stringify_sample upstream_null ''NoSuchTool''
        (Some [(''envId'', JStr ''2'')]) =
        ([], Inl (new_Error ''Unknown tool: NoSuchTool''))"
  using unknown_tool_name
    [where Tools = Tools_names and StringToNumber = no_numbers and PORTAINER_ENV_ID = "Some ''2''"
       and up = upstream_null and name = "''NoSuchTool''"
       and typedArgs = "[(''envId'', JStr ''2'')]" and TOOL = TOOL_names
       and stringify = stringify_sample]
    Tools_names_unknown TOOL_names_unknown
  by simp

text \<open>
  C7 as stated fails: a request for an unregistered tool that carries no arguments object
  is answered, in the first revision, about the missing arguments and not about the
  unknown tool; in the second revision an unregistered name yields no reply at all.
\<close>

theorem unknown_tool_without_arguments_counterexample:
  "''NoSuchTool'' \<notin> set (map Tools_names
       [GetDockerContainers, CreateDockerContainer, StartDockerContainer, DeleteDockerContainer,
        GetContainerLogs, UpdateContainer, DeleteUnwantedContainers, GetImages,
        DeleteImageBuilderCache, DeleteUnusedImages, GetNetworks, GetServices, GetServiceLogs])
   \<and> CallTool_handler_r1 Tools_names no_numbers (Some ''2'') upstream_null ''NoSuchTool'' None =
       ([], Inr (text_reply (JStr ''Failed: No arguments provided for tool: NoSuchTool'')))
   \<and> text_reply (JStr ''Failed: No arguments provided for tool: NoSuchTool'')
       \<noteq> text_reply (JStr ''Failed: Unknown tool: NoSuchTool'')"
proof -
  have "CallTool_handler_r1 Tools_names no_numbers (Some ''2'') upstream_null ''NoSuchTool'' None =
       ([], Inr (text_reply (JStr ''Failed: No arguments provided for tool: NoSuchTool'')))"
    using CallTool_handler_r1_no_arguments
      [of Tools_names no_numbers "Some ''2''" upstream_null "''NoSuchTool''"]
    by simp
  moreover have "text_reply (JStr ''Failed: No arguments provided for tool: NoSuchTool'')
       \<noteq> text_reply (JStr ''Failed: Unknown tool: NoSuchTool'')"
    by (simp add: text_reply_def)
  moreover have "''NoSuchTool'' \<notin> set (map Tools_names
       [GetDockerContainers, CreateDockerContainer, StartDockerContainer, DeleteDockerContainer,
        GetContainerLogs, UpdateContainer, DeleteUnwantedContainers, GetImages,
        DeleteImageBuilderCache, DeleteUnusedImages, GetNetworks, GetServices, GetServiceLogs])"
    by simp
  ultimately show ?thesis
    by blast
qed

section \<open>The tool catalogue\<close>

lemma inj_TOOL_names: "inj TOOL_names"
proof (rule injI)
  fix x y assume "TOOL_names x = TOOL_names y"
  then show "x = y" by (cases x; cases y; simp)
qed

lemma inj_Tools_names: "inj Tools_names"
proof (rule injI)
  fix x y assume "Tools_names x = Tools_names y"
  then show "x = y" by (cases x; cases y; simp)
qed

lemma operation_onto: "\<exists>k. operation k = t"
proof (cases t)
  case Fetch_containers then show ?thesis by (intro exI [of _ FETCH_DOCKER_CONTAINERS]) simp
next
  case Create_container then show ?thesis by (intro exI [of _ CREATE_DOCKER_CONTAINER]) simp
next
  case Start_container then show ?thesis by (intro exI [of _ START_DOCKER_CONTAINER]) simp
next
  case Delete_container then show ?thesis by (intro exI [of _ DELETE_DOCKER_CONTAINER]) simp
next
  case Fetch_container_logs then show ?thesis by (intro exI [of _ FETCH_CONTAINER_LOGS]) simp
next
  case Update_container_limits then show ?thesis by (intro exI [of _ UPDATE_CONTAINER_RESOURCE_LIMITS]) simp
next
  case Delete_stopped_containers then show ?thesis by (intro exI [of _ DELETE_STOPPED_CONTAINERS]) simp
next
  case Fetch_images then show ?thesis by (intro exI [of _ FETCH_IMAGES]) simp
next
  case Delete_image_build_cache then show ?thesis by (intro exI [of _ DELETE_IMAGE_BUILD_CACHE]) simp
next
  case Delete_unused_images then show ?thesis by (intro exI [of _ DELETE_UNUSED_IMAGES]) simp
next
  case Fetch_networks then show ?thesis by (intro exI [of _ FETCH_NETWORKS]) simp
next
  case Inspect_network then show ?thesis by (intro exI [of _ INSPECT_NETWORK]) simp
next
  case Fetch_services then show ?thesis by (intro exI [of _ FETCH_SERVICES]) simp
next
  case Fetch_service_logs then show ?thesis by (intro exI [of _ FETCH_SERVICE_LOG]) simp
qed

lemma operation_r1_not_inspect: "operation_r1 k \<noteq> Inspect_network"
  by (cases k) simp_all

lemma required_of_ListTools:
  assumes "inj TOOL"
  shows "required_of (TOOL k) (tools_of (ListTools_handler TOOL)) =
           [map spec_arg_field (spec_required (operation k))]"
  by (cases k)
     (simp_all add: required_of_def tools_of_def ListTools_handler_def tool_descriptor_def
        inj_eq [OF assms])

lemma required_of_ListTools_r1:
  assumes "inj Tools"
  shows "required_of (Tools k) (tools_of (ListTools_handler_r1 Tools)) =
           [map spec_arg_field (filter (\<lambda>a. a \<noteq> Environment_id) (spec_required (operation_r1 k)))]"
  by (cases k)
     (simp_all add: required_of_def tools_of_def ListTools_handler_r1_def tool_descriptor_def
        inj_eq [OF assms])

lemma properties_of_ListTools:
  assumes "inj TOOL"
  shows "properties_of (TOOL k) (tools_of (ListTools_handler TOOL)) =
           [map spec_arg_field (spec_required (operation k)) @ spec_optional (operation k)]"
  by (cases k)
     (simp_all add: properties_of_def tools_of_def ListTools_handler_def tool_descriptor_def
        inj_eq [OF assms])

lemma properties_of_ListTools_r1:
  assumes "inj Tools"
  shows "properties_of (Tools k) (tools_of (ListTools_handler_r1 Tools)) =
           [map spec_arg_field (filter (\<lambda>a. a \<noteq> Environment_id) (spec_required (operation_r1 k)))
            @ spec_optional (operation_r1 k)]"
  by (cases k)
     (simp_all add: properties_of_def tools_of_def ListTools_handler_r1_def tool_descriptor_def
        inj_eq [OF assms])

text \<open>
  C3 (as amended).  Provided the members of the constant table stand for pairwise different
  names: in the second revision the list of tools holds, for each of the fourteen tools of
  the table in section 6, exactly one descriptor with that name, and its required fields
  are the table's (environment identifier first); in the first revision the list holds
  exactly one descriptor for each of thirteen tools, its required fields are the table's
  without the environment identifier, and no descriptor stands for \<open>inspect network\<close>.
  In both, the declared properties of a descriptor are its required fields followed by the
  table's optional arguments.  Either list is a constant, in the order of the source,
  computed without any upstream request.
\<close>

theorem ListTools_matches_table:
  "(inj TOOL \<longrightarrow>
      (\<forall>k. required_of (TOOL k) (tools_of (ListTools_handler TOOL)) =
             [map spec_arg_field (spec_required (operation k))]))
   \<and> (inj TOOL \<longrightarrow>
      (\<forall>k. properties_of (TOOL k) (tools_of (ListTools_handler TOOL)) =
             [map spec_arg_field (spec_required (operation k)) @ spec_optional (operation k)]))
   \<and> (\<forall>t. \<exists>k. operation k = t)
   \<and> (inj Tools \<longrightarrow>
      (\<forall>k. required_of (Tools k) (tools_of (ListTools_handler_r1 Tools)) =
             [map spec_arg_field
                (filter (\<lambda>a. a \<noteq> Environment_id) (spec_required (operation_r1 k)))]))
   \<and> (inj Tools \<longrightarrow>
      (\<forall>k. properties_of (Tools k) (tools_of (ListTools_handler_r1 Tools)) =
             [map spec_arg_field
                (filter (\<lambda>a. a \<noteq> Environment_id) (spec_required (operation_r1 k)))
              @ spec_optional (operation_r1 k)]))
   \<and> (\<forall>k. operation_r1 k \<noteq> Inspect_network)
   \<and> map tool_name (tools_of (ListTools_handler TOOL)) =
       map TOOL [FETCH_DOCKER_CONTAINERS, CREATE_DOCKER_CONTAINER, START_DOCKER_CONTAINER,
                 DELETE_DOCKER_CONTAINER, FETCH_CONTAINER_LOGS, UPDATE_CONTAINER_RESOURCE_LIMITS,
                 DELETE_STOPPED_CONTAINERS, FETCH_IMAGES, DELETE_IMAGE_BUILD_CACHE,
                 DELETE_UNUSED_IMAGES, FETCH_NETWORKS, INSPECT_NETWORK, FETCH_SERVICES,
                 FETCH_SERVICE_LOG]
   \<and> map tool_name (tools_of (ListTools_handler_r1 Tools)) =
       map Tools [GetDockerContainers, CreateDockerContainer, StartDockerContainer,
                  DeleteDockerContainer, GetContainerLogs, UpdateContainer,
                  DeleteUnwantedContainers, GetImages, DeleteImageBuilderCache,
                  DeleteUnusedImages, GetNetworks, GetServices, GetServiceLogs]
   \<and> fst (ListTools_handler TOOL) = []
   \<and> fst (ListTools_handler_r1 Tools) = []"
proof -
  have names: "map tool_name (tools_of (ListTools_handler TOOL)) =
       map TOOL [FETCH_DOCKER_CONTAINERS, CREATE_DOCKER_CONTAINER, START_DOCKER_CONTAINER,
                 DELETE_DOCKER_CONTAINER, FETCH_CONTAINER_LOGS, UPDATE_CONTAINER_RESOURCE_LIMITS,
                 DELETE_STOPPED_CONTAINERS, FETCH_IMAGES, DELETE_IMAGE_BUILD_CACHE,
                 DELETE_UNUSED_IMAGES, FETCH_NETWORKS, INSPECT_NETWORK, FETCH_SERVICES,
                 FETCH_SERVICE_LOG]"
    by (simp add: tools_of_def ListTools_handler_def tool_descriptor_def)
  have names1: "map tool_name (tools_of (ListTools_handler_r1 Tools)) =
       map Tools [GetDockerContainers, CreateDockerContainer, StartDockerContainer,
                  DeleteDockerContainer, GetContainerLogs, UpdateContainer,
                  DeleteUnwantedContainers, GetImages, DeleteImageBuilderCache,
                  DeleteUnusedImages, GetNetworks, GetServices, GetServiceLogs]"
    by (simp add: tools_of_def ListTools_handler_r1_def tool_descriptor_def)
  have quiet: "fst (ListTools_handler TOOL) = []"
    by (simp add: ListTools_handler_def)
  have quiet1: "fst (ListTools_handler_r1 Tools) = []"
    by (simp add: ListTools_handler_r1_def)
  from required_of_ListTools [of TOOL] required_of_ListTools_r1 [of Tools]
    properties_of_ListTools [of TOOL] properties_of_ListTools_r1 [of Tools]
    operation_onto operation_r1_not_inspect names names1 quiet quiet1
  show ?thesis by blast
qed

theorem ListTools_matches_table_witness:
  "inj TOOL_names
   \<and> required_of ''DELETE_DOCKER_CONTAINER'' (tools_of (ListTools_handler TOOL_names)) =
       [[''envId'', ''containerId'']]
   \<and> required_of ''FETCH_SERVICE_LOG'' (tools_of (ListTools_handler TOOL_names)) =
       [[''envId'', ''serviceId'']]
   \<and> inj Tools_names
   \<and> required_of ''DeleteDockerContainer'' (tools_of (ListTools_handler_r1 Tools_names)) =
       [[''containerId'']]"
proof -
  note t = ListTools_matches_table [where TOOL = TOOL_names and Tools = Tools_names]
  from t inj_TOOL_names
  have a: "required_of (TOOL_names DELETE_DOCKER_CONTAINER) (tools_of (ListTools_handler TOOL_names)) =
             [map spec_arg_field (spec_required (operation DELETE_DOCKER_CONTAINER))]"
    by blast
  from t inj_TOOL_names
  have b: "required_of (TOOL_names FETCH_SERVICE_LOG) (tools_of (ListTools_handler TOOL_names)) =
             [map spec_arg_field (spec_required (operation FETCH_SERVICE_LOG))]"
    by blast
  from t inj_Tools_names
  have c: "required_of (Tools_names DeleteDockerContainer) (tools_of (ListTools_handler_r1 Tools_names)) =
             [map spec_arg_field
                (filter (\<lambda>a. a \<noteq> Environment_id) (spec_required (operation_r1 DeleteDockerContainer)))]"
    by blast
  from a b c inj_TOOL_names inj_Tools_names show ?thesis
    by simp
qed

text \<open>
  C3 as stated fails on the first revision: the descriptor of \<open>fetch containers\<close> requires
  nothing, where the table of section 6 lists the environment identifier.
\<close>

theorem ListTools_r1_requires_no_environment_counterexample:
  "required_of (Tools_names GetDockerContainers) (tools_of (ListTools_handler_r1 Tools_names)) = [[]]
   \<and> map spec_arg_field (spec_required (operation_r1 GetDockerContainers)) = [''envId'']"
  by (simp add: required_of_def tools_of_def ListTools_handler_r1_def tool_descriptor_def)

section \<open>Single cases of the dispatch\<close>



lemma dispatch_r1_DeleteDockerContainer:
  "inj Tools \<Longrightarrow>
   dispatch_r1 Tools StringToNumber PORTAINER_ENV_ID up (Tools DeleteDockerContainer) (Some typedArgs) =
     then_reply
       (deleteDockerContainer_r1 PORTAINER_ENV_ID up
          (field typedArgs ''containerId'')
          (field typedArgs ''force''))
       (\<lambda>_. text_of_template
                [Lit ''Operation successful - Container Id: '',
                 Sub (Inr (field typedArgs ''containerId'')),
                 Lit '', Env Id: '', Sub (Inr (field typedArgs ''envId''))])"
  by (simp add: dispatch_r1_def inj_eq)

lemma dispatch_r1_GetContainerLogs:
  "inj Tools \<Longrightarrow>
   dispatch_r1 Tools StringToNumber PORTAINER_ENV_ID up (Tools GetContainerLogs) (Some typedArgs) =
     then_reply
       (fetchContainerLogs_r1 PORTAINER_ENV_ID up
          (field typedArgs ''containerId'')
          (field typedArgs ''stdout'')
          (field typedArgs ''stderr'')
          (field typedArgs ''follow'')
          (field typedArgs ''timestamps'')
          (field typedArgs ''tail''))
       (\<lambda>result. get result ''message'')"
  by (simp add: dispatch_r1_def inj_eq)




lemma CallTool_handler_DELETE_DOCKER_CONTAINER:
  "inj TOOL \<Longrightarrow>
   CallTool_handler TOOL stringify up (TOOL DELETE_DOCKER_CONTAINER) (Some typedArgs) =
     as_result (deleteDockerContainer stringify up
       (field typedArgs ''envId'')
       (field typedArgs ''containerId'')
       (field typedArgs ''force''))"
  by (simp add: CallTool_handler_def inj_eq)

lemma CallTool_handler_FETCH_CONTAINER_LOGS:
  "inj TOOL \<Longrightarrow>
   CallTool_handler TOOL stringify up (TOOL FETCH_CONTAINER_LOGS) (Some typedArgs) =
     as_result (fetchContainerLogs stringify up
       (field typedArgs ''envId'')
       (field typedArgs ''containerId'')
       (field typedArgs ''stdout'')
       (field typedArgs ''stderr'')
       (field typedArgs ''follow'')
       (field typedArgs ''timestamps'')
       (field typedArgs ''tail''))"
  by (simp add: CallTool_handler_def inj_eq)

lemma fst_then_reply: "fst (then_reply rq f) = fst rq"
  by (cases rq) (simp add: then_reply_def)

lemma fst_as_result: "fst (as_result rq) = fst rq"
  by (cases rq) (simp add: as_result_def)

lemma fst_handleRequest: "fst (handleRequest stringify rq) = fst rq"
  by (cases rq) (simp add: handleRequest_def)

lemma fst_returns_nothing: "fst (returns_nothing rq) = fst rq"
  by (cases rq) (simp add: returns_nothing_def)

lemma fst_CallTool_handler_r1:
  "fst (CallTool_handler_r1 Tools StringToNumber PORTAINER_ENV_ID up name args) =
   fst (dispatch_r1 Tools StringToNumber PORTAINER_ENV_ID up name args)"
  by (cases "dispatch_r1 Tools StringToNumber PORTAINER_ENV_ID up name args")
     (simp add: CallTool_handler_r1_def)

lemma CallTool_handler_r1_cong:
  "dispatch_r1 Tools StringToNumber PORTAINER_ENV_ID up name args =
   dispatch_r1 Tools StringToNumber PORTAINER_ENV_ID up name args' \<Longrightarrow>
   CallTool_handler_r1 Tools StringToNumber PORTAINER_ENV_ID up name args =
   CallTool_handler_r1 Tools StringToNumber PORTAINER_ENV_ID up name args'"
  by (simp add: CallTool_handler_r1_def)

text \<open>The path of a request of two identifiers, and of one after the default environment.\<close>

lemma path2:
  "to_string x = Inr a \<Longrightarrow> to_string y = Inr b \<Longrightarrow>
   template [Lit p, Sub (Inr x), Lit q, Sub (Inr y), Lit r] = Inr (p @ a @ q @ b @ r)"
  "to_string x = Inr a \<Longrightarrow> to_string y = Inr b \<Longrightarrow>
   template [Lit p, Sub (Inr x), Lit q, Sub (Inr y)] = Inr (p @ a @ q @ b)"
  by (simp_all add: and_then_def)

lemma path2_throws:
  "to_string x = Inl t \<Longrightarrow> template (Lit p # Sub (Inr x) # ps) = Inl t"
  "to_string x = Inr a \<Longrightarrow> to_string y = Inl t \<Longrightarrow>
   template (Lit p # Sub (Inr x) # Lit q # Sub (Inr y) # ps) = Inl t"
  by (simp_all add: and_then_def)

lemma path1:
  "to_string y = Inr b \<Longrightarrow>
   template [Lit p, Sub (Inr (env_value v)), Lit q, Sub (Inr y), Lit r] = Inr (p @ env_text v @ q @ b @ r)"
  "to_string y = Inr b \<Longrightarrow>
   template [Lit p, Sub (Inr (env_value v)), Lit q, Sub (Inr y)] = Inr (p @ env_text v @ q @ b)"
  "template [Lit p, Sub (Inr (env_value v)), Lit q] = Inr (p @ env_text v @ q)"
  by (simp_all add: and_then_def to_string_env_value)

lemma path1_throws:
  "to_string y = Inl t \<Longrightarrow>
   template (Lit p # Sub (Inr (env_value v)) # Lit q # Sub (Inr y) # ps) = Inl t"
  by (simp add: and_then_def to_string_env_value)

section \<open>Defaults of optional arguments\<close>

text \<open>
  C6.  For every environment identifier and container identifier, \<open>delete container\<close>
  with \<open>force\<close> omitted gives the same result, the same upstream request included, as
  with \<open>force = false\<close> supplied and all other arguments the same; the request is a DELETE
  with the parameter \<open>force = false\<close>, on the path that holds the identifiers as the
  template literal prints them, and an identifier that has no text leaves both
  invocations without a request.  This holds in the second revision (environment
  identifier among the arguments) and in the first (default environment).  The members of
  the constant table are taken to stand for different names, so that the call is
  dispatched to this case.
\<close>

theorem delete_container_force_default:
  assumes "inj TOOL" and "inj Tools"
    and "field a ''force'' = JUndefined"
    and "field b ''force'' = JBool False"
    and "\<forall>k. k \<noteq> ''force'' \<longrightarrow> field b k = field a k"
  shows "CallTool_handler TOOL stringify up (TOOL DELETE_DOCKER_CONTAINER) (Some a) =
         CallTool_handler TOOL stringify up (TOOL DELETE_DOCKER_CONTAINER) (Some b)
       \<and> (to_string (field a ''envId'') = Inr e \<and> to_string (field a ''containerId'') = Inr c \<longrightarrow>
           fst (CallTool_handler TOOL stringify up (TOOL DELETE_DOCKER_CONTAINER) (Some a)) =
             [\<lparr>req_method = DELETE,
               req_url = ''/api/endpoints/'' @ e @ ''/docker/containers/'' @ c,
               req_params = Some [(''force'', JBool False)], req_data = None\<rparr>])
       \<and> (to_string (field a ''envId'') = Inl t
            \<or> to_string (field a ''envId'') = Inr e \<and> to_string (field a ''containerId'') = Inl t \<longrightarrow>
           CallTool_handler TOOL stringify up (TOOL DELETE_DOCKER_CONTAINER) (Some a) = ([], Inl t))
       \<and> CallTool_handler_r1 Tools StringToNumber PORTAINER_ENV_ID up (Tools DeleteDockerContainer) (Some a) =
         CallTool_handler_r1 Tools StringToNumber PORTAINER_ENV_ID up (Tools DeleteDockerContainer) (Some b)
       \<and> (to_string (field a ''containerId'') = Inr c \<longrightarrow>
           fst (CallTool_handler_r1 Tools StringToNumber PORTAINER_ENV_ID up (Tools DeleteDockerContainer)
                  (Some a)) =
             [\<lparr>req_method = DELETE,
               req_url = ''/api/endpoints/'' @ env_text PORTAINER_ENV_ID @ ''/docker/containers/'' @ c,
               req_params = Some [(''force'', JBool False)], req_data = None\<rparr>])
       \<and> (to_string (field a ''containerId'') = Inl t \<longrightarrow>
           fst (CallTool_handler_r1 Tools StringToNumber PORTAINER_ENV_ID up (Tools DeleteDockerContainer)
                  (Some a)) = [])"
proof -
  have same: "field b ''envId'' = field a ''envId''" "field b ''containerId'' = field a ''containerId''"
    using assms(5) by simp_all
  have client2: "deleteDockerContainer stringify up x y JUndefined =
                 deleteDockerContainer stringify up x y (JBool False)" for x y
    by (simp add: deleteDockerContainer_def default_param_def)
  have client1: "deleteDockerContainer_r1 PORTAINER_ENV_ID up y JUndefined =
                 deleteDockerContainer_r1 PORTAINER_ENV_ID up y (JBool False)" for y
    by (simp add: deleteDockerContainer_r1_def default_param_def)
  have eq2: "CallTool_handler TOOL stringify up (TOOL DELETE_DOCKER_CONTAINER) (Some a) =
         CallTool_handler TOOL stringify up (TOOL DELETE_DOCKER_CONTAINER) (Some b)"
    by (simp add: CallTool_handler_DELETE_DOCKER_CONTAINER [OF assms(1)] assms(3,4) same client2)
  have sent2: "to_string (field a ''envId'') = Inr e \<Longrightarrow> to_string (field a ''containerId'') = Inr c \<Longrightarrow>
           fst (CallTool_handler TOOL stringify up (TOOL DELETE_DOCKER_CONTAINER) (Some a)) =
             [\<lparr>req_method = DELETE,
               req_url = ''/api/endpoints/'' @ e @ ''/docker/containers/'' @ c,
               req_params = Some [(''force'', JBool False)], req_data = None\<rparr>]"
    by (simp add: CallTool_handler_DELETE_DOCKER_CONTAINER [OF assms(1)] assms(3) fst_as_result
          deleteDockerContainer_def path2 request_at_def fst_handleRequest axios_delete_def Let_def
          default_param_def del: template.simps)
  have none2: "to_string (field a ''envId'') = Inl t
            \<or> to_string (field a ''envId'') = Inr e \<and> to_string (field a ''containerId'') = Inl t \<Longrightarrow>
           CallTool_handler TOOL stringify up (TOOL DELETE_DOCKER_CONTAINER) (Some a) = ([], Inl t)"
    by (auto simp: CallTool_handler_DELETE_DOCKER_CONTAINER [OF assms(1)] as_result_def
          deleteDockerContainer_def path2_throws request_at_def and_then_def
          del: template.simps)
  have "dispatch_r1 Tools StringToNumber PORTAINER_ENV_ID up (Tools DeleteDockerContainer) (Some a) =
        dispatch_r1 Tools StringToNumber PORTAINER_ENV_ID up (Tools DeleteDockerContainer) (Some b)"
    using assms(5)
    by (simp add: dispatch_r1_DeleteDockerContainer [OF assms(2)] assms(3,4) same client1)
  then have eq1: "CallTool_handler_r1 Tools StringToNumber PORTAINER_ENV_ID up (Tools DeleteDockerContainer) (Some a) =
         CallTool_handler_r1 Tools StringToNumber PORTAINER_ENV_ID up (Tools DeleteDockerContainer) (Some b)"
    by (rule CallTool_handler_r1_cong)
  have sent1: "to_string (field a ''containerId'') = Inr c \<Longrightarrow>
           fst (CallTool_handler_r1 Tools StringToNumber PORTAINER_ENV_ID up (Tools DeleteDockerContainer)
                  (Some a)) =
             [\<lparr>req_method = DELETE,
               req_url = ''/api/endpoints/'' @ env_text PORTAINER_ENV_ID @ ''/docker/containers/'' @ c,
               req_params = Some [(''force'', JBool False)], req_data = None\<rparr>]"
    by (simp add: fst_CallTool_handler_r1 dispatch_r1_DeleteDockerContainer [OF assms(2)] assms(3)
          fst_then_reply deleteDockerContainer_r1_def path1 request_at_def fst_returns_nothing
          axios_delete_def Let_def default_param_def del: template.simps)
  have none1: "to_string (field a ''containerId'') = Inl t \<Longrightarrow>
           fst (CallTool_handler_r1 Tools StringToNumber PORTAINER_ENV_ID up (Tools DeleteDockerContainer)
                  (Some a)) = []"
    by (simp add: fst_CallTool_handler_r1 dispatch_r1_DeleteDockerContainer [OF assms(2)]
          fst_then_reply deleteDockerContainer_r1_def path1_throws request_at_def
          del: template.simps)
  from eq2 sent2 none2 eq1 sent1 none1 show ?thesis by blast
qed

theorem delete_container_force_default_witness:
  "inj TOOL_names \<and> inj Tools_names
   \<and> field [(''envId'', JStr ''2''), (''containerId'', JStr ''4f1c'')] ''force'' = JUndefined
   \<and> field [(''envId'', JStr ''2''), (''containerId'', JStr ''4f1c''), (''force'', JBool False)] ''force''
       = JBool False
   \<and> CallTool_handler TOOL_names stringify_sample upstream_null ''DELETE_DOCKER_CONTAINER''
        (Some [(''envId'', JStr ''2''), (''containerId'', JStr ''4f1c'')]) =
       CallTool_handler TOOL_names stringify_sample upstream_null ''DELETE_DOCKER_CONTAINER''
        (Some [(''envId'', JStr ''2''), (''containerId'', JStr ''4f1c''), (''force'', JBool False)])
   \<and> fst (CallTool_handler TOOL_names stringify_sample upstream_null ''DELETE_DOCKER_CONTAINER''
        (Some [(''envId'', JStr ''2''), (''containerId'', JStr ''4f1c'')])) =
       [\<lparr>req_method = DELETE, req_url = ''/api/endpoints/2/docker/containers/4f1c'',
         req_params = Some [(''force'', JBool False)], req_data = None\<rparr>]
   \<and> CallTool_handler_r1 Tools_names no_numbers (Some ''2'') upstream_null ''DeleteDockerContainer''
        (Some [(''envId'', JStr ''2''), (''containerId'', JStr ''4f1c'')]) =
       CallTool_handler_r1 Tools_names no_numbers (Some ''2'') upstream_null ''DeleteDockerContainer''
        (Some [(''envId'', JStr ''2''), (''containerId'', JStr ''4f1c''), (''force'', JBool False)])"
proof -
  let ?a = "[(''envId'', JStr ''2''), (''containerId'', JStr ''4f1c'')]"
  let ?b = "[(''envId'', JStr ''2''), (''containerId'', JStr ''4f1c''), (''force'', JBool False)]"
  have h3: "field ?a ''force'' = JUndefined"
    by (simp add: field_def)
  have h4: "field ?b ''force'' = JBool False"
    by (simp add: field_def)
  have h5: "\<forall>k. k \<noteq> ''force'' \<longrightarrow> field ?b k = field ?a k"
    by (simp add: field_def)
  note t = delete_container_force_default
    [OF inj_TOOL_names inj_Tools_names h3 h4 h5, where stringify = stringify_sample
       and up = upstream_null and StringToNumber = no_numbers and PORTAINER_ENV_ID = "Some ''2''"
       and e = "''2''" and c = "''4f1c''" and t = "TypeError []"]
  have u: "to_string (field ?a ''envId'') = Inr ''2'' \<and> to_string (field ?a ''containerId'') = Inr ''4f1c''"
    by (simp add: field_def)
  have n: "TOOL_names DELETE_DOCKER_CONTAINER = ''DELETE_DOCKER_CONTAINER''"
    "Tools_names DeleteDockerContainer = ''DeleteDockerContainer''"
    by simp_all
  have app: "''/api/endpoints/'' @ ''2'' @ ''/docker/containers/'' @ ''4f1c'' =
             ''/api/endpoints/2/docker/containers/4f1c''"
    by simp
  note t' = t [unfolded n]
  from t' have c1: "CallTool_handler TOOL_names stringify_sample upstream_null ''DELETE_DOCKER_CONTAINER''
        (Some ?a) =
       CallTool_handler TOOL_names stringify_sample upstream_null ''DELETE_DOCKER_CONTAINER'' (Some ?b)"
    by (rule conjunct1)
  from t' [THEN conjunct2, THEN conjunct1, rule_format, OF u]
  have c2: "fst (CallTool_handler TOOL_names stringify_sample upstream_null ''DELETE_DOCKER_CONTAINER''
        (Some ?a)) =
       [\<lparr>req_method = DELETE, req_url = ''/api/endpoints/2/docker/containers/4f1c'',
         req_params = Some [(''force'', JBool False)], req_data = None\<rparr>]"
    unfolding app .
  from t' [THEN conjunct2, THEN conjunct2, THEN conjunct2, THEN conjunct1]
  have c3: "CallTool_handler_r1 Tools_names no_numbers (Some ''2'') upstream_null ''DeleteDockerContainer''
        (Some ?a) =
       CallTool_handler_r1 Tools_names no_numbers (Some ''2'') upstream_null ''DeleteDockerContainer''
        (Some ?b)" .
  show ?thesis
    by (intro conjI inj_TOOL_names inj_Tools_names h3 h4 c1 c2 c3)
qed

text \<open>
  C5.  When \<open>fetch container logs\<close> is invoked with its optional arguments omitted, the
  upstream request carries \<open>stdout = true\<close>, \<open>stderr = true\<close>, \<open>follow = false\<close>,
  \<open>timestamps = false\<close> and \<open>tail = 10\<close>, and the invocation gives the same result
  as one that supplies exactly these values and is otherwise the same.  The path holds the
  identifiers as the template literal prints them, and an identifier that has no text
  leaves both invocations without a request.  This holds in the second revision and in
  the first.  The members of the constant table are taken to stand for different names,
  so that the call is dispatched to this case.
\<close>

theorem fetch_container_logs_defaults:
  assumes "inj TOOL" and "inj Tools"
    and "field a ''stdout'' = JUndefined" and "field a ''stderr'' = JUndefined"
    and "field a ''follow'' = JUndefined" and "field a ''timestamps'' = JUndefined"
    and "field a ''tail'' = JUndefined"
    and "field b ''stdout'' = JBool True" and "field b ''stderr'' = JBool True"
    and "field b ''follow'' = JBool False" and "field b ''timestamps'' = JBool False"
    and "field b ''tail'' = JNum 10"
    and "field b ''envId'' = field a ''envId''" and "field b ''containerId'' = field a ''containerId''"
  shows "CallTool_handler TOOL stringify up (TOOL FETCH_CONTAINER_LOGS) (Some a) =
         CallTool_handler TOOL stringify up (TOOL FETCH_CONTAINER_LOGS) (Some b)
       \<and> (to_string (field a ''envId'') = Inr e \<and> to_string (field a ''containerId'') = Inr c \<longrightarrow>
           fst (CallTool_handler TOOL stringify up (TOOL FETCH_CONTAINER_LOGS) (Some a)) =
             [\<lparr>req_method = GET,
               req_url = ''/api/endpoints/'' @ e @ ''/docker/containers/'' @ c @ ''/logs'',
               req_params = Some [(''stdout'', JBool True), (''stderr'', JBool True),
                                  (''follow'', JBool False), (''timestamps'', JBool False),
                                  (''tail'', JNum 10)],
               req_data = None\<rparr>])
       \<and> (to_string (field a ''envId'') = Inl t
            \<or> to_string (field a ''envId'') = Inr e \<and> to_string (field a ''containerId'') = Inl t \<longrightarrow>
           CallTool_handler TOOL stringify up (TOOL FETCH_CONTAINER_LOGS) (Some a) = ([], Inl t))
       \<and> CallTool_handler_r1 Tools StringToNumber PORTAINER_ENV_ID up (Tools GetContainerLogs) (Some a) =
         CallTool_handler_r1 Tools StringToNumber PORTAINER_ENV_ID up (Tools GetContainerLogs) (Some b)
       \<and> (to_string (field a ''containerId'') = Inr c \<longrightarrow>
           fst (CallTool_handler_r1 Tools StringToNumber PORTAINER_ENV_ID up (Tools GetContainerLogs)
                  (Some a)) =
             [\<lparr>req_method = GET,
               req_url = ''/api/endpoints/'' @ env_text PORTAINER_ENV_ID @ ''/docker/containers/''
                         @ c @ ''/logs'',
               req_params = Some [(''stdout'', JBool True), (''stderr'', JBool True),
                                  (''follow'', JBool False), (''timestamps'', JBool False),
                                  (''tail'', JNum 10)],
               req_data = None\<rparr>])
       \<and> (to_string (field a ''containerId'') = Inl t \<longrightarrow>
           fst (CallTool_handler_r1 Tools StringToNumber PORTAINER_ENV_ID up (Tools GetContainerLogs)
                  (Some a)) = [])"
proof -
  note omitted = assms(3-7)
  note supplied = assms(8-12)
  note same = assms(13,14)
  have client2: "fetchContainerLogs stringify up x y JUndefined JUndefined JUndefined JUndefined JUndefined =
                 fetchContainerLogs stringify up x y (JBool True) (JBool True) (JBool False) (JBool False)
                   (JNum 10)" for x y
    by (simp add: fetchContainerLogs_def default_param_def)
  have client1: "fetchContainerLogs_r1 PORTAINER_ENV_ID up y JUndefined JUndefined JUndefined JUndefined
                   JUndefined =
                 fetchContainerLogs_r1 PORTAINER_ENV_ID up y (JBool True) (JBool True) (JBool False)
                   (JBool False) (JNum 10)" for y
    by (simp add: fetchContainerLogs_r1_def default_param_def)
  have eq2: "CallTool_handler TOOL stringify up (TOOL FETCH_CONTAINER_LOGS) (Some a) =
         CallTool_handler TOOL stringify up (TOOL FETCH_CONTAINER_LOGS) (Some b)"
    by (simp add: CallTool_handler_FETCH_CONTAINER_LOGS [OF assms(1)] omitted supplied same client2)
  have sent2: "to_string (field a ''envId'') = Inr e \<Longrightarrow> to_string (field a ''containerId'') = Inr c \<Longrightarrow>
           fst (CallTool_handler TOOL stringify up (TOOL FETCH_CONTAINER_LOGS) (Some a)) =
             [\<lparr>req_method = GET,
               req_url = ''/api/endpoints/'' @ e @ ''/docker/containers/'' @ c @ ''/logs'',
               req_params = Some [(''stdout'', JBool True), (''stderr'', JBool True),
                                  (''follow'', JBool False), (''timestamps'', JBool False),
                                  (''tail'', JNum 10)],
               req_data = None\<rparr>]"
    by (simp add: CallTool_handler_FETCH_CONTAINER_LOGS [OF assms(1)] omitted fst_as_result
          fetchContainerLogs_def path2 request_at_def fst_handleRequest axios_get_def Let_def
          default_param_def
          del: template.simps)
  have none2: "to_string (field a ''envId'') = Inl t
            \<or> to_string (field a ''envId'') = Inr e \<and> to_string (field a ''containerId'') = Inl t \<Longrightarrow>
           CallTool_handler TOOL stringify up (TOOL FETCH_CONTAINER_LOGS) (Some a) = ([], Inl t)"
    by (auto simp: CallTool_handler_FETCH_CONTAINER_LOGS [OF assms(1)] as_result_def
          fetchContainerLogs_def path2_throws request_at_def and_then_def
          del: template.simps)
  have "dispatch_r1 Tools StringToNumber PORTAINER_ENV_ID up (Tools GetContainerLogs) (Some a) =
        dispatch_r1 Tools StringToNumber PORTAINER_ENV_ID up (Tools GetContainerLogs) (Some b)"
    by (simp add: dispatch_r1_GetContainerLogs [OF assms(2)] omitted supplied same client1)
  then have eq1: "CallTool_handler_r1 Tools StringToNumber PORTAINER_ENV_ID up (Tools GetContainerLogs) (Some a) =
         CallTool_handler_r1 Tools StringToNumber PORTAINER_ENV_ID up (Tools GetContainerLogs) (Some b)"
    by (rule CallTool_handler_r1_cong)
  have sent1: "to_string (field a ''containerId'') = Inr c \<Longrightarrow>
           fst (CallTool_handler_r1 Tools StringToNumber PORTAINER_ENV_ID up (Tools GetContainerLogs)
                  (Some a)) =
             [\<lparr>req_method = GET,
               req_url = ''/api/endpoints/'' @ env_text PORTAINER_ENV_ID @ ''/docker/containers/''
                         @ c @ ''/logs'',
               req_params = Some [(''stdout'', JBool True), (''stderr'', JBool True),
                                  (''follow'', JBool False), (''timestamps'', JBool False),
                                  (''tail'', JNum 10)],
               req_data = None\<rparr>]"
    by (simp add: fst_CallTool_handler_r1 dispatch_r1_GetContainerLogs [OF assms(2)] omitted
          fst_then_reply fetchContainerLogs_r1_def path1 request_at_def axios_get_def Let_def
          default_param_def
          del: template.simps)
  have none1: "to_string (field a ''containerId'') = Inl t \<Longrightarrow>
           fst (CallTool_handler_r1 Tools StringToNumber PORTAINER_ENV_ID up (Tools GetContainerLogs)
                  (Some a)) = []"
    by (simp add: fst_CallTool_handler_r1 dispatch_r1_GetContainerLogs [OF assms(2)]
          fst_then_reply fetchContainerLogs_r1_def path1_throws request_at_def
          del: template.simps)
  from eq2 sent2 none2 eq1 sent1 none1 show ?thesis by blast
qed

theorem fetch_container_logs_defaults_witness:
  "inj TOOL_names \<and> inj Tools_names
   \<and> field [(''envId'', JStr ''2''), (''containerId'', JStr ''4f1c'')] ''stdout'' = JUndefined
   \<and> field [(''envId'', JStr ''2''), (''containerId'', JStr ''4f1c'')] ''stderr'' = JUndefined
   \<and> field [(''envId'', JStr ''2''), (''containerId'', JStr ''4f1c'')] ''follow'' = JUndefined
   \<and> field [(''envId'', JStr ''2''), (''containerId'', JStr ''4f1c'')] ''timestamps'' = JUndefined
   \<and> field [(''envId'', JStr ''2''), (''containerId'', JStr ''4f1c'')] ''tail'' = JUndefined
   \<and> fst (CallTool_handler TOOL_names stringify_sample upstream_null ''FETCH_CONTAINER_LOGS''
        (Some [(''envId'', JStr ''2''), (''containerId'', JStr ''4f1c'')])) =
       [\<lparr>req_method = GET, req_url = ''/api/endpoints/2/docker/containers/4f1c/logs'',
         req_params = Some [(''stdout'', JBool True), (''stderr'', JBool True),
                            (''follow'', JBool False), (''timestamps'', JBool False),
                            (''tail'', JNum 10)],
         req_data = None\<rparr>]
   \<and> CallTool_handler TOOL_names stringify_sample upstream_null ''FETCH_CONTAINER_LOGS''
        (Some [(''envId'', JStr ''2''), (''containerId'', JStr ''4f1c'')]) =
       CallTool_handler TOOL_names stringify_sample upstream_null ''FETCH_CONTAINER_LOGS''
        (Some [(''envId'', JStr ''2''), (''containerId'', JStr ''4f1c''), (''stdout'', JBool True),
               (''stderr'', JBool True), (''follow'', JBool False), (''timestamps'', JBool False),
               (''tail'', JNum 10)])
   \<and> CallTool_handler_r1 Tools_names no_numbers (Some ''2'') upstream_null ''GetContainerLogs''
        (Some [(''envId'', JStr ''2''), (''containerId'', JStr ''4f1c'')]) =
       CallTool_handler_r1 Tools_names no_numbers (Some ''2'') upstream_null ''GetContainerLogs''
        (Some [(''envId'', JStr ''2''), (''containerId'', JStr ''4f1c''), (''stdout'', JBool True),
               (''stderr'', JBool True), (''follow'', JBool False), (''timestamps'', JBool False),
               (''tail'', JNum 10)])"
proof -
  let ?a = "[(''envId'', JStr ''2''), (''containerId'', JStr ''4f1c'')]"
  let ?b = "[(''envId'', JStr ''2''), (''containerId'', JStr ''4f1c''), (''stdout'', JBool True),
               (''stderr'', JBool True), (''follow'', JBool False), (''timestamps'', JBool False),
               (''tail'', JNum 10)]"
  have o1: "field ?a ''stdout'' = JUndefined" by (simp add: field_def)
  have o2: "field ?a ''stderr'' = JUndefined" by (simp add: field_def)
  have o3: "field ?a ''follow'' = JUndefined" by (simp add: field_def)
  have o4: "field ?a ''timestamps'' = JUndefined" by (simp add: field_def)
  have o5: "field ?a ''tail'' = JUndefined" by (simp add: field_def)
  have s1: "field ?b ''stdout'' = JBool True" by (simp add: field_def)
  have s2: "field ?b ''stderr'' = JBool True" by (simp add: field_def)
  have s3: "field ?b ''follow'' = JBool False" by (simp add: field_def)
  have s4: "field ?b ''timestamps'' = JBool False" by (simp add: field_def)
  have s5: "field ?b ''tail'' = JNum 10" by (simp add: field_def)
  have e1: "field ?b ''envId'' = field ?a ''envId''" by (simp add: field_def)
  have e2: "field ?b ''containerId'' = field ?a ''containerId''" by (simp add: field_def)
  note t = fetch_container_logs_defaults
    [OF inj_TOOL_names inj_Tools_names o1 o2 o3 o4 o5 s1 s2 s3 s4 s5 e1 e2,
     where stringify = stringify_sample and up = upstream_null and StringToNumber = no_numbers
       and PORTAINER_ENV_ID = "Some ''2''" and e = "''2''" and c = "''4f1c''" and t = "TypeError []"]
  have u: "to_string (field ?a ''envId'') = Inr ''2'' \<and> to_string (field ?a ''containerId'') = Inr ''4f1c''"
    by (simp add: field_def)
  have n: "TOOL_names FETCH_CONTAINER_LOGS = ''FETCH_CONTAINER_LOGS''"
    "Tools_names GetContainerLogs = ''GetContainerLogs''"
    by simp_all
  have app: "''/api/endpoints/'' @ ''2'' @ ''/docker/containers/'' @ ''4f1c'' @ ''/logs'' =
             ''/api/endpoints/2/docker/containers/4f1c/logs''"
    by simp
  note t' = t [unfolded n]
  from t' have c1: "CallTool_handler TOOL_names stringify_sample upstream_null ''FETCH_CONTAINER_LOGS''
        (Some ?a) =
       CallTool_handler TOOL_names stringify_sample upstream_null ''FETCH_CONTAINER_LOGS'' (Some ?b)"
    by (rule conjunct1)
  from t' [THEN conjunct2, THEN conjunct1, rule_format, OF u]
  have c2: "fst (CallTool_handler TOOL_names stringify_sample upstream_null ''FETCH_CONTAINER_LOGS''
        (Some ?a)) =
       [\<lparr>req_method = GET, req_url = ''/api/endpoints/2/docker/containers/4f1c/logs'',
         req_params = Some [(''stdout'', JBool True), (''stderr'', JBool True),
                            (''follow'', JBool False), (''timestamps'', JBool False),
                            (''tail'', JNum 10)],
         req_data = None\<rparr>]"
    unfolding app .
  from t' [THEN conjunct2, THEN conjunct2, THEN conjunct2, THEN conjunct1]
  have c3: "CallTool_handler_r1 Tools_names no_numbers (Some ''2'') upstream_null ''GetContainerLogs''
        (Some ?a) =
       CallTool_handler_r1 Tools_names no_numbers (Some ''2'') upstream_null ''GetContainerLogs''
        (Some ?b)" .
  show ?thesis
    by (intro conjI inj_TOOL_names inj_Tools_names o1 o2 o3 o4 o5 c1 c2 c3)
qed

section \<open>What the success replies of the first revision say\<close>






section \<open>The reply to \<open>fetch containers\<close>\<close>


lemma join_length:
  "length (join sep xs) = sum_list (map length xs) + length sep * (length xs - 1)"
  by (induction sep xs rule: join.induct) simp_all




lemma port_carries_port_json: "port_carries (port_json p) p"
  by (cases "port_IP p"; cases "port_PublicPort p")
     (simp_all add: port_carries_def port_json_def field_def)

lemma carries_container_json: "carries (container_json c) c"
  by (simp add: carries_def container_json_def field_def list_all2_map1 list_all2_same
        port_carries_port_json)







end
